theory Spec2Isabelle
  imports Main "HOL-Library.Sublist"
begin

section \<open>Python values used by git-fat\<close>

text \<open>
  The program is Python 3: a \<open>str\<close> is a sequence of Unicode code points and \<open>len\<close>
  counts code points; a \<open>bytes\<close> object is a sequence of octets. The two are kept apart:
  code points are natural numbers, octets are \<open>char\<close>.
\<close>

type_synonym pystr = "nat list"
type_synonym pybytes = "char list"

text \<open>An ASCII literal of the source, as a Python \<open>str\<close>.\<close>

definition ustr :: "string \<Rightarrow> pystr" where
  "ustr s = map of_char s"

text \<open>
  The exceptions the modelled code can raise. \<open>DecodeError\<close> is the class attribute
  \<open>GitFat.DecodeError = RuntimeError\<close>; the others are the built-in classes, none of
  which is a subclass of \<open>RuntimeError\<close>. \<open>FileNotFoundError\<close> is a subclass of
  \<open>IOError\<close>; \<open>NameError\<close> is what the use of an unbound global name raises.
\<close>

datatype pyerr =
    DecodeError
  | IndexError
  | ValueError
  | TypeError
  | IOError
  | UnicodeEncodeError
  | UnicodeDecodeError
  | NameError
  | FileNotFoundError

definition and_then :: "pyerr + 'a \<Rightarrow> ('a \<Rightarrow> pyerr + 'b) \<Rightarrow> pyerr + 'b" where
  "and_then r f = (case r of Inl e \<Rightarrow> Inl e | Inr v \<Rightarrow> f v)"

subsection \<open>\<open>str.split()\<close>, \<open>int(str)\<close> and \<open>%20d\<close>\<close>

text \<open>
  \<open>str.isspace\<close> for one code point: U+0009..U+000D, U+001C..U+0020, U+0085, U+00A0,
  U+1680, U+2000..U+200A, U+2028, U+2029, U+202F, U+205F, U+3000.
\<close>

definition isspace :: "nat \<Rightarrow> bool" where
  "isspace c \<longleftrightarrow>
     (9 \<le> c \<and> c \<le> 13) \<or> (28 \<le> c \<and> c \<le> 32) \<or> c = 133 \<or> c = 160 \<or> c = 5760 \<or>
     (8192 \<le> c \<and> c \<le> 8202) \<or> c = 8232 \<or> c = 8233 \<or> c = 8239 \<or> c = 8287 \<or> c = 12288"

text \<open>
  \<open>s.split()\<close> with no argument: the maximal runs of non-whitespace, in order; no empty
  string is ever produced. \<open>cur\<close> is the run being collected.
\<close>

fun split_acc :: "pystr \<Rightarrow> pystr \<Rightarrow> pystr list" where
  "split_acc cur [] = (if cur = [] then [] else [cur])"
| "split_acc cur (c # cs) =
     (if isspace c then (if cur = [] then split_acc [] cs else cur # split_acc [] cs)
      else split_acc (cur @ [c]) cs)"

definition py_split :: "pystr \<Rightarrow> pystr list" where
  "py_split s = split_acc [] s"

text \<open>The ASCII digits, those that \<open>%d\<close> writes.\<close>

definition isdigit :: "nat \<Rightarrow> bool" where
  "isdigit c \<longleftrightarrow> 48 \<le> c \<and> c \<le> 57"

text \<open>
  The decimal digits \<open>int(s)\<close> accepts are the characters of Unicode category Nd. They
  come in runs of ten, from the digit zero to the digit nine; \<open>decimal_zeros\<close> lists the
  zero of each run (Unicode 14.0, the table of CPython 3.11), the first being the ASCII
  \<open>0\<close>. \<open>decimal_value\<close> is the value of a digit, \<open>None\<close> for any other character.
\<close>

definition decimal_zeros :: "nat list" where
  "decimal_zeros =
     [48, 1632, 1776, 1984, 2406, 2534, 2662, 2790, 2918, 3046, 3174, 3302, 3430, 3558, 3664,
      3792, 3872, 4160, 4240, 6112, 6160, 6470, 6608, 6784, 6800, 6992, 7088, 7232, 7248,
      42528, 43216, 43264, 43472, 43504, 43600, 44016, 65296, 66720, 68912, 69734, 69872,
      69942, 70096, 70384, 70736, 70864, 71248, 71360, 71472, 71904, 72016, 72784, 73040,
      73120, 92768, 92864, 93008, 120782, 120792, 120802, 120812, 120822, 123200, 123632,
      125264, 130032]"

definition decimal_value :: "nat \<Rightarrow> nat option" where
  "decimal_value c =
     map_option (\<lambda>z. c - z) (find (\<lambda>z. z \<le> c \<and> c < z + 10) decimal_zeros)"

text \<open>
  The digits of \<open>int(s)\<close> after the first one: more digits, each optionally preceded by a
  single underscore. \<open>None\<close> is \<open>ValueError\<close>.
\<close>

fun parse_digits :: "nat \<Rightarrow> pystr \<Rightarrow> nat option" where
  "parse_digits acc [] = Some acc"
| "parse_digits acc (c # cs) =
     (case decimal_value c of
        Some v \<Rightarrow> parse_digits (10 * acc + v) cs
      | None \<Rightarrow>
          if c = 95 then
            (case cs of
               [] \<Rightarrow> None
             | d # ds \<Rightarrow>
                 (case decimal_value d of
                    Some v \<Rightarrow> parse_digits (10 * acc + v) ds
                  | None \<Rightarrow> None))
          else None)"

definition strip :: "pystr \<Rightarrow> pystr" where
  "strip s = rev (dropWhile isspace (rev (dropWhile isspace s)))"

text \<open>
  \<open>int(s)\<close> in base 10: surrounding whitespace is dropped, then an optional sign and at
  least one digit. \<open>None\<close> is \<open>ValueError\<close>. The interpreter's configurable limit on the
  number of digits is not modelled.
\<close>

definition py_int :: "pystr \<Rightarrow> int option" where
  "py_int s =
     (let t = strip s;
          neg = (t \<noteq> [] \<and> hd t = 45);
          u = (if t \<noteq> [] \<and> (hd t = 43 \<or> hd t = 45) then tl t else t)
      in case u of
           [] \<Rightarrow> None
         | c # cs \<Rightarrow>
             (case decimal_value c of
                Some v0 \<Rightarrow>
                  map_option (\<lambda>v. if neg then - int v else int v) (parse_digits v0 cs)
              | None \<Rightarrow> None))"

fun dec_digits :: "nat \<Rightarrow> pystr" where
  "dec_digits n = (if n < 10 then [48 + n] else dec_digits (n div 10) @ [48 + n mod 10])"

declare dec_digits.simps [simp del]

text \<open>\<open>"%d" % n\<close> and the right-justification of \<open>"%20d"\<close> (the field grows when the
  digits do not fit).\<close>

definition fmt_d :: "int \<Rightarrow> pystr" where
  "fmt_d n = (if n < 0 then 45 # dec_digits (nat (- n)) else dec_digits (nat n))"

definition pad_left :: "nat \<Rightarrow> pystr \<Rightarrow> pystr" where
  "pad_left w s = replicate (w - length s) 32 @ s"

section \<open>The placeholder codec\<close>

text \<open>
  \<open>git_utils.py\<close> uses three global names that it neither imports nor defines:
  \<open>itertools\<close>, \<open>logger\<close> and \<open>umask\<close> (\<open>utils.umask\<close> exists, the bare name does not).
  The use of an unbound name raises \<open>NameError\<close>.
\<close>

datatype global_name = Itertools | Logger | Umask

text \<open>
  What the process takes from outside the code modelled: the environment variables
  \<open>GIT_FAT_VERSION\<close> and \<open>GIT_FAT_VERBOSE\<close> (\<open>os.environ.get\<close>, \<open>None\<close> when unset),
  \<open>hashlib\<close>'s SHA-1 as a function from the octets hashed to the hexadecimal digest, the
  block size of \<open>readblocks\<close>, the path \<open>self.objdir\<close> of the object directory, and
  \<open>module_globals\<close>, those of the three names above that are bound in the module when it
  runs: none in the code as shipped.
\<close>

record runtime =
  GIT_FAT_VERSION :: "pystr option"
  GIT_FAT_VERBOSE :: "pystr option"
  sha1_hexdigest :: "pybytes \<Rightarrow> pystr"
  BLOCK_SIZE :: nat
  objdir_path :: pystr
  module_globals :: "global_name set"

text \<open>
  Logging, as \<open>main.py\<close> sets it up: \<open>logging.basicConfig(stream=sys.stdout, level=DEBUG
  if GIT_FAT_VERBOSE is set else INFO, format="%(message)s")\<close>. A record that passes the
  level is written to standard output as the message and a line feed. \<open>logging.debug\<close> is
  the module function; \<open>logger.debug\<close> and \<open>logger.info\<close> first look up the name
  \<open>logger\<close>, before their argument is evaluated.
\<close>

definition logging_debug :: "runtime \<Rightarrow> pystr \<Rightarrow> pystr \<Rightarrow> pystr" where
  "logging_debug rt msg out = (if GIT_FAT_VERBOSE rt \<noteq> None then out @ msg @ [10] else out)"

definition logger_debug :: "runtime \<Rightarrow> pystr \<Rightarrow> pystr \<Rightarrow> pyerr + pystr" where
  "logger_debug rt msg out =
     (if Logger \<in> module_globals rt then Inr (logging_debug rt msg out) else Inl NameError)"

text \<open>\<open>os.path.join(a, b)\<close> of two components.\<close>

definition path_join :: "pystr \<Rightarrow> pystr \<Rightarrow> pystr" where
  "path_join a b =
     (if b \<noteq> [] \<and> hd b = 47 then b
      else if a = [] \<or> last a = 47 then a @ b
      else a @ [47] @ b)"

definition cookie :: pystr where
  "cookie = ustr ''#$# git-fat ''"

text \<open>\<open>"#$# git-fat %s\n" % (digest,)\<close>\<close>

definition encode_v1 :: "pystr \<Rightarrow> int option \<Rightarrow> pystr" where
  "encode_v1 digest bytes = cookie @ digest @ [10]"

text \<open>\<open>"#$# git-fat %s %20d\n" % (digest, bytes)\<close>; \<open>%d\<close> of \<open>None\<close> raises
  \<open>TypeError\<close>.\<close>

definition encode_v2 :: "pystr \<Rightarrow> int option \<Rightarrow> pyerr + pystr" where
  "encode_v2 digest bytes =
     (case bytes of
        None \<Rightarrow> Inl TypeError
      | Some n \<Rightarrow> Inr (cookie @ digest @ [32] @ pad_left 20 (fmt_d n) @ [10]))"

definition encode :: "runtime \<Rightarrow> pystr \<Rightarrow> int option \<Rightarrow> pyerr + pystr" where
  "encode rt digest bytes =
     (if GIT_FAT_VERSION rt = Some (ustr ''1'') then Inr (encode_v1 digest bytes)
      else encode_v2 digest bytes)"

text \<open>
  \<open>decode(string, noraise)\<close>. \<open>parts[0]\<close> on an empty list raises \<open>IndexError\<close> and
  \<open>int(parts[1])\<close> on a non-number raises \<open>ValueError\<close>, with or without \<open>noraise\<close>.
  The result \<open>(None, None)\<close> is the sentinel.
\<close>

definition decode :: "pystr \<Rightarrow> bool \<Rightarrow> pyerr + (pystr option \<times> int option)" where
  "decode string noraise =
     (if prefix cookie string then
        (case py_split (drop (length cookie) string) of
           [] \<Rightarrow> Inl IndexError
         | digest # rest \<Rightarrow>
             (case rest of
                [] \<Rightarrow> Inr (Some digest, None)
              | p1 # _ \<Rightarrow>
                  (case py_int p1 of
                     None \<Rightarrow> Inl ValueError
                   | Some bytes \<Rightarrow> Inr (Some digest, Some bytes))))
      else if noraise then Inr (None, None)
      else Inl DecodeError)"

text \<open>\<open>decode_clean(body)\<close>: the digest of \<open>decode(body, noraise=True)\<close>.\<close>

definition decode_clean :: "pystr \<Rightarrow> pyerr + pystr option" where
  "decode_clean body = and_then (decode body True) (\<lambda>(digest, bytes). Inr digest)"

text \<open>A digest as the data model has it: 40 lowercase hexadecimal characters.\<close>

definition is_hexdigest :: "pystr \<Rightarrow> bool" where
  "is_hexdigest d \<longleftrightarrow>
     length d = 40 \<and> list_all (\<lambda>c. (48 \<le> c \<and> c \<le> 57) \<or> (97 \<le> c \<and> c \<le> 102)) d"

text \<open>
  \<open>_calculate_magic_len\<close> and \<open>_calculate_all_magic_lens\<close>, run once by \<open>__init__\<close>:
  the length of the placeholder of SHA-1(\<open>"dummy"\<close>) with size 5, under the write version
  and under each version. \<open>encode\<close> cannot raise on an integer size, so the \<open>Inl\<close> branch
  is never taken (lemma \<open>encode_int\<close>).
\<close>

definition dummy_hash :: "runtime \<Rightarrow> pystr" where
  "dummy_hash rt = sha1_hexdigest rt ''dummy''"

definition calculate_magic_len :: "runtime \<Rightarrow> nat" where
  "calculate_magic_len rt =
     (case encode rt (dummy_hash rt) (Some 5) of Inr p \<Rightarrow> length p | Inl e \<Rightarrow> 0)"

definition calculate_all_magic_lens :: "runtime \<Rightarrow> nat list" where
  "calculate_all_magic_lens rt =
     [length (encode_v1 (dummy_hash rt) (Some 5)),
      (case encode_v2 (dummy_hash rt) (Some 5) of Inr p \<Rightarrow> length p | Inl e \<Rightarrow> 0)]"

definition magiclen :: "runtime \<Rightarrow> nat" where
  "magiclen rt = calculate_magic_len rt"

definition magiclens :: "runtime \<Rightarrow> nat list" where
  "magiclens rt = calculate_all_magic_lens rt"

section \<open>Streams and UTF-8\<close>

text \<open>\<open>str.encode("utf-8")\<close> for one code point; \<open>None\<close> is \<open>UnicodeEncodeError\<close>
  (a surrogate).\<close>

definition utf8_char :: "nat \<Rightarrow> pybytes option" where
  "utf8_char c =
     (if c < 0x80 then Some [char_of c]
      else if c < 0x800 then Some [char_of (0xC0 + c div 64), char_of (0x80 + c mod 64)]
      else if 0xD800 \<le> c \<and> c \<le> 0xDFFF then None
      else if c < 0x10000 then
        Some [char_of (0xE0 + c div 4096), char_of (0x80 + c div 64 mod 64),
              char_of (0x80 + c mod 64)]
      else if c < 0x110000 then
        Some [char_of (0xF0 + c div 262144), char_of (0x80 + c div 4096 mod 64),
              char_of (0x80 + c div 64 mod 64), char_of (0x80 + c mod 64)]
      else None)"

fun utf8_encode :: "pystr \<Rightarrow> pyerr + pybytes" where
  "utf8_encode [] = Inr []"
| "utf8_encode (c # cs) =
     (case utf8_char c of
        None \<Rightarrow> Inl UnicodeEncodeError
      | Some b \<Rightarrow> and_then (utf8_encode cs) (\<lambda>bs. Inr (b @ bs)))"

definition is_cont :: "nat \<Rightarrow> bool" where
  "is_cont b \<longleftrightarrow> 0x80 \<le> b \<and> b \<le> 0xBF"

text \<open>\<open>bytes.decode("utf-8")\<close>, strict, on the octet values; \<open>None\<close> is
  \<open>UnicodeDecodeError\<close>.\<close>

fun utf8_dec :: "nat list \<Rightarrow> pystr option" where
  "utf8_dec [] = Some []"
| "utf8_dec (b0 # bs) =
     (if b0 < 0x80 then map_option ((#) b0) (utf8_dec bs)
      else if 0xC2 \<le> b0 \<and> b0 \<le> 0xDF then
        (case bs of
           b1 # r \<Rightarrow>
             if is_cont b1
             then map_option ((#) ((b0 - 0xC0) * 64 + (b1 - 0x80))) (utf8_dec r)
             else None
         | _ \<Rightarrow> None)
      else if 0xE0 \<le> b0 \<and> b0 \<le> 0xEF then
        (case bs of
           b1 # b2 # r \<Rightarrow>
             if is_cont b1 \<and> is_cont b2
                \<and> (if b0 = 0xE0 then 0xA0 \<le> b1 else True)
                \<and> (if b0 = 0xED then b1 \<le> 0x9F else True)
             then map_option ((#) ((b0 - 0xE0) * 4096 + (b1 - 0x80) * 64 + (b2 - 0x80)))
                    (utf8_dec r)
             else None
         | _ \<Rightarrow> None)
      else if 0xF0 \<le> b0 \<and> b0 \<le> 0xF4 then
        (case bs of
           b1 # b2 # b3 # r \<Rightarrow>
             if is_cont b1 \<and> is_cont b2 \<and> is_cont b3
                \<and> (if b0 = 0xF0 then 0x90 \<le> b1 else True)
                \<and> (if b0 = 0xF4 then b1 \<le> 0x8F else True)
             then map_option
                    ((#) ((b0 - 0xF0) * 262144 + (b1 - 0x80) * 4096 + (b2 - 0x80) * 64
                          + (b3 - 0x80)))
                    (utf8_dec r)
             else None
         | _ \<Rightarrow> None)
      else None)"

definition utf8_decode :: "pybytes \<Rightarrow> pyerr + pystr" where
  "utf8_decode b =
     (case utf8_dec (map of_char b) of None \<Rightarrow> Inl UnicodeDecodeError | Some s \<Rightarrow> Inr s)"

text \<open>
  Modelled from the spec: \<open>readblocks\<close>, which \<open>git_utils.py\<close> calls and no file under
  \<open>src/\<close> defines. The spec's filters read their input block by block until end of
  input: the successive blocks of at most \<open>n\<close> items, none empty. A block size of 0
  reads nothing, as \<open>read(0)\<close> returns the empty string.
\<close>

function readblocks :: "nat \<Rightarrow> 'a list \<Rightarrow> 'a list list" where
  "readblocks n s = (if n = 0 \<or> s = [] then [] else take n s # readblocks n (drop n s))"
  by pat_completeness auto
termination
  by (relation "measure (\<lambda>(n, s). length s)") auto

declare readblocks.simps [simp del]

text \<open>\<open>readline()\<close> on a binary stream: through the first LF, or what is left; with
  the rest of the stream.\<close>

definition readline :: "pybytes \<Rightarrow> pybytes \<times> pybytes" where
  "readline s =
     (case dropWhile (\<lambda>c. c \<noteq> CHR 0x0A) s of
        [] \<Rightarrow> (s, [])
      | nl # rest \<Rightarrow> (takeWhile (\<lambda>c. c \<noteq> CHR 0x0A) s @ [nl], rest))"

section \<open>The filters\<close>

text \<open>
  The state the filters act on: the object directory \<open>.git/fat/objects\<close>, a map from the
  name of each file in it to the text the program reads from or writes to that file (every
  file is opened in text mode), and what has been written to standard output.
\<close>

record fat_state =
  objdir :: "pystr \<rightharpoonup> pystr"
  stdout :: pystr

text \<open>The local variables of the loop of \<open>filter_clean\<close>: the octets given to
  \<open>h.update\<close> so far, \<open>bytes\<close>, the two flags, the text written to the temporary file and
  the text written to \<open>outstreamclean\<close>.\<close>

record clean_vars =
  hasher :: pybytes
  nbytes :: int
  ishanging :: bool
  firstblock :: bool
  cache :: pystr
  outstreamclean :: pystr

text \<open>Truth value of \<open>decode_clean\<close>'s result in \<open>if ... and self.decode_clean(...)\<close>.\<close>

definition truthy :: "pystr option \<Rightarrow> bool" where
  "truthy d = (case d of None \<Rightarrow> False | Some x \<Rightarrow> x \<noteq> [])"

text \<open>The test \<open>len(block) == self.magiclen and self.decode_clean(block[0:self.magiclen])\<close>
  made on the first block; \<open>and\<close> calls \<open>decode_clean\<close> only when the lengths agree.\<close>

definition hanging_test :: "runtime \<Rightarrow> pystr \<Rightarrow> pyerr + bool" where
  "hanging_test rt block =
     (if length block = magiclen rt
      then and_then (decode_clean (take (magiclen rt) block)) (\<lambda>d. Inr (truthy d))
      else Inr False)"

text \<open>One iteration of \<open>for block in readblocks(instream)\<close>. \<open>len(block)\<close> is the number
  of characters of the block; the hash is fed its UTF-8 encoding.\<close>

definition clean_block :: "runtime \<Rightarrow> clean_vars \<Rightarrow> pystr \<Rightarrow> pyerr + clean_vars" where
  "clean_block rt v block =
     and_then
       (if firstblock v then
          and_then (hanging_test rt block)
            (\<lambda>hanging. Inr (if hanging
                             then v\<lparr>ishanging := True, firstblock := False\<rparr>
                             else v\<lparr>firstblock := False\<rparr>))
        else Inr v)
       (\<lambda>v1. and_then (utf8_encode block)
          (\<lambda>enc.
             let v2 = v1\<lparr>hasher := hasher v1 @ enc, nbytes := nbytes v1 + int (length block)\<rparr>
             in Inr (if ishanging v2
                     then v2\<lparr>outstreamclean := outstreamclean v2 @ block\<rparr>
                     else v2\<lparr>cache := cache v2 @ block\<rparr>)))"

text \<open>The loop; an exception leaves the variables as they were when it was raised.\<close>

fun clean_blocks :: "runtime \<Rightarrow> clean_vars \<Rightarrow> pystr list \<Rightarrow> pyerr option \<times> clean_vars" where
  "clean_blocks rt v [] = (None, v)"
| "clean_blocks rt v (block # blocks) =
     (case clean_block rt v block of
        Inl e \<Rightarrow> (Some e, v)
      | Inr v' \<Rightarrow> clean_blocks rt v' blocks)"

text \<open>
  \<open>filter_clean(instream, outstreamclean)\<close> with \<open>outstreamclean\<close> standard output, as
  \<open>cmd_filter_clean\<close> calls it; the log goes to standard output too. \<open>instream\<close> is the
  text of the input stream. \<open>tmpname\<close> is the name \<open>mkstemp\<close> picks, a name not in the
  directory. The result is the exception that escapes, if any, and the state left behind.

  After the loop, for an input that is not hanging: if the object file exists, a debug
  line, the temporary file is removed; else \<open>os.chmod(tmpname, ... & ~umask())\<close>, where
  the unbound \<open>umask\<close> raises \<open>NameError\<close> before anything is renamed, then
  \<open>os.rename\<close>, then \<open>logger.debug\<close>. Then \<open>cached = True\<close> and the placeholder is
  written. The \<open>finally\<close> clause removes the temporary file unless \<open>cached\<close> was set:
  after a \<open>NameError\<close> at \<open>logger\<close> the file has been renamed already and \<open>os.remove\<close>
  raises \<open>FileNotFoundError\<close>, which is the exception that escapes.
\<close>

definition filter_clean :: "runtime \<Rightarrow> pystr \<Rightarrow> pystr \<Rightarrow> fat_state \<Rightarrow> pyerr option \<times> fat_state" where
  "filter_clean rt tmpname instream s =
     (let (exc, v) = clean_blocks rt
            \<lparr>hasher = [], nbytes = 0, ishanging = False, firstblock = True, cache = [],
             outstreamclean = stdout s\<rparr>
            (readblocks (BLOCK_SIZE rt) instream);
          dir = (objdir s)(tmpname \<mapsto> cache v)
      in case exc of
           Some e \<Rightarrow> (Some e, \<lparr>objdir = dir |` (- {tmpname}), stdout = outstreamclean v\<rparr>)
         | None \<Rightarrow>
             let digest = sha1_hexdigest rt (hasher v);
                 objfile = path_join (objdir_path rt) digest
             in if \<not> ishanging v then
                  if digest \<in> dom dir then
                    let out = logging_debug rt
                                (ustr ''git-fat filter-clean: cache already exists '' @ objfile)
                                (outstreamclean v);
                        dir' = dir |` (- {tmpname})
                    in case encode rt digest (Some (nbytes v)) of
                         Inl e \<Rightarrow> (Some e, \<lparr>objdir = dir', stdout = out\<rparr>)
                       | Inr p \<Rightarrow> (None, \<lparr>objdir = dir', stdout = out @ p\<rparr>)
                  else if Umask \<notin> module_globals rt then
                    (Some NameError,
                     \<lparr>objdir = dir |` (- {tmpname}), stdout = outstreamclean v\<rparr>)
                  else
                    let dir' = (dir |` (- {tmpname}))(digest \<mapsto> cache v)
                    in case logger_debug rt (ustr ''git-fat filter-clean: caching to '' @ objfile)
                              (outstreamclean v) of
                         Inl e \<Rightarrow>
                           (Some FileNotFoundError,
                            \<lparr>objdir = dir', stdout = outstreamclean v\<rparr>)
                       | Inr out \<Rightarrow>
                           (case encode rt digest (Some (nbytes v)) of
                              Inl e \<Rightarrow> (Some e, \<lparr>objdir = dir', stdout = out\<rparr>)
                            | Inr p \<Rightarrow> (None, \<lparr>objdir = dir', stdout = out @ p\<rparr>))
                else (None, \<lparr>objdir = dir |` (- {tmpname}), stdout = outstreamclean v\<rparr>))"

text \<open>
  What \<open>decode_stream\<close> hands back first: a digest, or the iterator
  \<open>itertools.chain([preamble], readblocks(stream))\<close> over the whole input. \<open>stream\<close> is the
  text of the stream. In the handler of \<open>DecodeError\<close> the name \<open>itertools\<close> is looked up
  first, and raises \<open>NameError\<close> when unbound.
\<close>

datatype decoded = Str pystr | Iter "pystr list" | NoneValue

definition decode_stream :: "runtime \<Rightarrow> pystr \<Rightarrow> pyerr + (decoded \<times> int option)" where
  "decode_stream rt stream =
     (let preamble = take (magiclen rt) stream
      in case decode preamble False of
           Inr (digest, bytes) \<Rightarrow>
             Inr (case digest of Some d \<Rightarrow> Str d | None \<Rightarrow> NoneValue, bytes)
         | Inl e \<Rightarrow>
             if e = DecodeError then
               if Itertools \<in> module_globals rt
               then Inr (Iter (preamble
                               # readblocks (BLOCK_SIZE rt) (drop (magiclen rt) stream)),
                         None)
               else Inl NameError
             else Inl e)"

text \<open>
  Modelled from the spec: \<open>cat\<close> and \<open>cat_iter\<close>, which \<open>git_utils.py\<close> calls and no file
  under \<open>src/\<close> defines. \<open>cat\<close> copies all of a file to the output; \<open>cat_iter\<close> forwards
  every block of an iterator to the output.
\<close>

definition cat :: "pystr \<Rightarrow> pystr \<Rightarrow> pystr" where
  "cat content out = out @ content"

definition cat_iter :: "pystr list \<Rightarrow> pystr \<Rightarrow> pystr" where
  "cat_iter blocks out = out @ concat blocks"

text \<open>
  \<open>cmd_filter_smudge\<close> on the octets \<open>stdin\<close> of standard input. \<open>sys.stdin\<close> is a text
  stream: in a UTF-8 locale it decodes the octets as UTF-8, strictly, and raises
  \<open>UnicodeDecodeError\<close> on octets that are not; it does not translate line ends. The model decodes the input whole, as the stream does for an input that fits
  one of its chunks of 8192 octets; for a longer input with a bad octet in a later chunk
  the exception would come at a later read.

  \<open>open(objfile)\<close> of a name not in the directory raises \<open>IOError\<close>, which the handler
  turns into the placeholder; a \<open>NameError\<close> at \<open>logger\<close> is not an \<open>IOError\<close> and
  escapes, in the \<open>try\<close> block after \<open>cat\<close> has written the blob.
\<close>

definition cmd_filter_smudge :: "runtime \<Rightarrow> pybytes \<Rightarrow> fat_state \<Rightarrow> pyerr option \<times> fat_state" where
  "cmd_filter_smudge rt stdin s =
     (case utf8_decode stdin of
        Inl e \<Rightarrow> (Some e, s)
      | Inr stream \<Rightarrow>
          (case decode_stream rt stream of
             Inl e \<Rightarrow> (Some e, s)
           | Inr (result, bytes) \<Rightarrow>
               (case result of
                  Str digest \<Rightarrow>
                    (let objfile = path_join (objdir_path rt) digest
                     in case objdir s digest of
                          Some content \<Rightarrow>
                            (let out = cat content (stdout s)
                             in case logger_debug rt
                                       (ustr ''git-fat filter-smudge: restoring from '' @ objfile)
                                       out of
                                  Inl e \<Rightarrow> (Some e, s\<lparr>stdout := out\<rparr>)
                                | Inr out' \<Rightarrow> (None, s\<lparr>stdout := out'\<rparr>))
                        | None \<Rightarrow>
                            (case logger_debug rt
                                    (ustr ''git-fat filter-smudge: fat object missing '' @ objfile)
                                    (stdout s) of
                               Inl e \<Rightarrow> (Some e, s)
                             | Inr out \<Rightarrow>
                                 (case encode rt digest bytes of
                                    Inl e \<Rightarrow> (Some e, s\<lparr>stdout := out\<rparr>)
                                  | Inr p \<Rightarrow> (None, s\<lparr>stdout := out @ p\<rparr>))))
                | Iter blocks \<Rightarrow>
                    (case logger_debug rt (ustr ''git-fat filter-smudge: not a managed file'')
                            (stdout s) of
                       Inl e \<Rightarrow> (Some e, s)
                     | Inr out \<Rightarrow> (None, s\<lparr>stdout := cat_iter blocks out\<rparr>))
                | NoneValue \<Rightarrow>
                    (case logger_debug rt (ustr ''git-fat filter-smudge: not a managed file'')
                            (stdout s) of
                       Inl e \<Rightarrow> (Some e, s)
                     | Inr out \<Rightarrow> (Some TypeError, s\<lparr>stdout := out\<rparr>)))))"

section \<open>The graph scanner and garbage collection\<close>

definition catalog_objects :: "fat_state \<Rightarrow> pystr set" where
  "catalog_objects s = dom (objdir s)"

text \<open>
  The inner loop of \<open>referenced_objects\<close> that collects the content of one record from the
  output of \<open>git cat-file --batch\<close>: it asks for \<open>size - bytes_read\<close> octets (\<open>sz\<close> is the source's \<open>size\<close>), decodes what
  it got and adds the number of characters decoded to \<open>bytes_read\<close>.
\<close>

function read_content :: "int \<Rightarrow> int \<Rightarrow> pystr \<Rightarrow> pybytes \<Rightarrow> pyerr + (pystr \<times> pybytes)" where
  "read_content sz bytes_read content stream =
     (if bytes_read < sz then
        (let data = take (nat (sz - bytes_read)) stream
         in if data = [] then Inr (content, stream)
            else (case utf8_decode data of
                    Inl e \<Rightarrow> Inl e
                  | Inr text \<Rightarrow>
                      read_content sz (bytes_read + int (length text)) (content @ text)
                        (drop (nat (sz - bytes_read)) stream)))
      else Inr (content, stream))"
  by pat_completeness auto
termination
  by (relation "measure (\<lambda>(sz, bytes_read, content, stream). length stream)") auto

declare read_content.simps [simp del]

lemma read_content_length:
  "read_content sz bytes_read content stream = Inr (c, rest) \<Longrightarrow> length rest \<le> length stream"
proof (induction sz bytes_read content stream rule: read_content.induct)
  case (1 sz bytes_read content stream)
  show ?case
  proof (cases "bytes_read < sz \<and> take (nat (sz - bytes_read)) stream \<noteq> []")
    case False
    with "1.prems" show ?thesis
      by (subst (asm) read_content.simps) (auto simp: Let_def split: if_splits)
  next
    case True
    then obtain tx where t: "utf8_decode (take (nat (sz - bytes_read)) stream) = Inr tx"
      and r: "read_content sz (bytes_read + int (length tx)) (content @ tx)
                (drop (nat (sz - bytes_read)) stream) = Inr (c, rest)"
      using "1.prems"
      by (subst (asm) read_content.simps) (auto simp: Let_def split: if_splits sum.splits)
    have "length rest \<le> length (drop (nat (sz - bytes_read)) stream)"
      using "1.IH" [OF _ refl _ t r] True by simp
    then show ?thesis by simp
  qed
qed

lemma readline_length:
  "readline s = (line, rest) \<Longrightarrow> line \<noteq> [] \<Longrightarrow> length rest < length s"
proof -
  assume a: "readline s = (line, rest)" and b: "line \<noteq> []"
  have len: "length (takeWhile (\<lambda>c. c \<noteq> CHR 0x0A) s) + length (dropWhile (\<lambda>c. c \<noteq> CHR 0x0A) s)
             = length s"
    by (metis length_append takeWhile_dropWhile_id)
  show ?thesis
  proof (cases "dropWhile (\<lambda>c. c \<noteq> CHR 0x0A) s")
    case Nil
    with a b show ?thesis by (auto simp: readline_def)
  next
    case (Cons nl r)
    with a have "rest = r" by (simp add: readline_def)
    with Cons len show ?thesis by simp
  qed
qed

text \<open>
  The consumer loop of \<open>referenced_objects\<close> over the output of \<open>git cat-file --batch\<close>:
  a header line of three fields, the content, one delimiter. Only \<open>DecodeError\<close> is
  caught around \<open>decode\<close>. The loop that consumes the delimiter reads one octet.
\<close>

function scan_records :: "pystr set \<Rightarrow> pybytes \<Rightarrow> pyerr + pystr set" where
  "scan_records referenced stream =
     (case readline stream of
        (metadata_line, s1) \<Rightarrow>
          if metadata_line = [] then Inr referenced
          else
            (case utf8_decode metadata_line of
               Inl e \<Rightarrow> Inl e
             | Inr line \<Rightarrow>
                 (case py_split line of
                    [objhash, objtype, size_str] \<Rightarrow>
                      (case py_int size_str of
                         None \<Rightarrow> Inl ValueError
                       | Some sz \<Rightarrow>
                           (case read_content sz 0 [] s1 of
                              Inl e \<Rightarrow> Inl e
                            | Inr (content, s2) \<Rightarrow>
                                (case decode content False of
                                   Inl e \<Rightarrow>
                                     if e = DecodeError then scan_records referenced (drop 1 s2)
                                     else Inl e
                                 | Inr (fathash, bytes) \<Rightarrow>
                                     scan_records
                                       (case fathash of
                                          Some d \<Rightarrow> insert d referenced
                                        | None \<Rightarrow> referenced)
                                       (drop 1 s2))))
                  | _ \<Rightarrow> Inl ValueError)))"
  by pat_completeness auto
termination
proof (relation "measure (\<lambda>(referenced, stream). length stream)", goal_cases)
  case 1
  show ?case by simp
next
  case 2
  then show ?case
    by (auto dest!: read_content_length dest: readline_length [OF sym])
next
  case 3
  then show ?case
    by (auto dest!: read_content_length dest: readline_length [OF sym])
qed

declare scan_records.simps [simp del]

text \<open>\<open>referenced_objects()\<close>: the set the consumer builds from the output \<open>p3_stdout\<close> of
  the pipeline started on the revision (\<open>HEAD\<close> by default).\<close>

definition referenced_objects :: "pybytes \<Rightarrow> pyerr + pystr set" where
  "referenced_objects p3_stdout = scan_records {} p3_stdout"

text \<open>
  \<open>cmd_gc\<close>: the catalog is listed, the history scanned, then
  \<open>logger.info("Unreferenced objects to remove: ...")\<close> comes before the loop that removes
  every name of the catalog that is not referenced: with \<open>logger\<close> unbound it raises
  \<open>NameError\<close> and nothing is removed. The result is the exception that escapes, if
  any, and the object directory left behind; the lines a bound logger writes are not
  part of it (their order is that in which the interpreter iterates a set).
\<close>

definition cmd_gc :: "runtime \<Rightarrow> pybytes \<Rightarrow> fat_state \<Rightarrow> pyerr option \<times> (pystr \<rightharpoonup> pystr)" where
  "cmd_gc rt p3_stdout s =
     (let catalog = catalog_objects s
      in case referenced_objects p3_stdout of
           Inl e \<Rightarrow> (Some e, objdir s)
         | Inr referenced \<Rightarrow>
             let garbage = catalog - referenced
             in if Logger \<notin> module_globals rt then (Some NameError, objdir s)
                else (None, objdir s |` (- garbage)))"

section \<open>Derived notions and sample data\<close>

text \<open>\<open>decode(encode(d, n))\<close> and \<open>len(encode(d, n))\<close>, with the exception if one
  escapes.\<close>

definition decode_encoded ::
  "runtime \<Rightarrow> pystr \<Rightarrow> int \<Rightarrow> bool \<Rightarrow> pyerr + (pystr option \<times> int option)" where
  "decode_encoded rt d n noraise = and_then (encode rt d (Some n)) (\<lambda>p. decode p noraise)"

definition encoded_len :: "runtime \<Rightarrow> pystr \<Rightarrow> int \<Rightarrow> pyerr + nat" where
  "encoded_len rt d n = and_then (encode rt d (Some n)) (\<lambda>p. Inr (length p))"

text \<open>The outcome of the test of \<open>filter_clean\<close> on the first block of an input; an
  empty input has no block and is not hanging.\<close>

definition first_block_hanging :: "runtime \<Rightarrow> pystr \<Rightarrow> pyerr + bool" where
  "first_block_hanging rt instream =
     (case readblocks (BLOCK_SIZE rt) instream of
        [] \<Rightarrow> Inr False
      | block # blocks \<Rightarrow> hanging_test rt block)"

text \<open>
  SHA-1 on the inputs of the examples below, with the digests \<open>sha1sum\<close> prints for
  them: \<open>dummy\<close>, \<open>hello world\<close>, the two octets C3 A9, the 74 octets of \<open>odd74\<close>
  below and the empty input. No example hashes anything else.
\<close>

definition odd74_octets :: pybytes where
  "odd74_octets =
     ''#$# git-fat 2aae6c35c94fcfb415dbe95f408b9ce91ee846ed'' @ [CHR 0xC2, CHR 0xA0]
     @ ''                 11'' @ [CHR 0x0A]"

definition sha1_sample :: "pybytes \<Rightarrow> pystr" where
  "sha1_sample b =
     (if b = ''dummy'' then ustr ''829c3804401b0727f70f73d4415e162400cbe57b''
      else if b = ''hello world'' then ustr ''2aae6c35c94fcfb415dbe95f408b9ce91ee846ed''
      else if b = [CHR 0xC3, CHR 0xA9] then ustr ''bf15be717ac1b080b4f1c456692825891ff5073d''
      else if b = odd74_octets then ustr ''1fa03a99f3ce79d6d70d12d771560dbb4bcdb977''
      else ustr ''da39a3ee5e6b4b0d3255bfef95601890afd80709'')"

text \<open>
  Sample processes. \<open>rt_shipped\<close> runs the code as shipped, with none of the three
  names bound, under the default version 2 and quiet (\<open>GIT_FAT_VERBOSE\<close> unset). \<open>rt_v2\<close>
  and \<open>rt_v1\<close> run it with the three names bound to what they name (\<open>itertools\<close>, a
  logger of the \<open>logging\<close> module, \<open>utils.umask\<close>), quiet, under version 2 and under
  \<open>GIT_FAT_VERSION=1\<close>; \<open>rt_verbose\<close> is \<open>rt_v2\<close> with \<open>GIT_FAT_VERBOSE=1\<close>.
\<close>

definition rt_shipped :: runtime where
  "rt_shipped =
     \<lparr>GIT_FAT_VERSION = None, GIT_FAT_VERBOSE = None, sha1_hexdigest = sha1_sample,
      BLOCK_SIZE = 4096, objdir_path = ustr ''.git/fat/objects'', module_globals = {}\<rparr>"

definition rt_v2 :: runtime where
  "rt_v2 =
     \<lparr>GIT_FAT_VERSION = None, GIT_FAT_VERBOSE = None, sha1_hexdigest = sha1_sample,
      BLOCK_SIZE = 4096, objdir_path = ustr ''.git/fat/objects'',
      module_globals = {Itertools, Logger, Umask}\<rparr>"

definition rt_verbose :: runtime where
  "rt_verbose =
     \<lparr>GIT_FAT_VERSION = None, GIT_FAT_VERBOSE = Some (ustr ''1''),
      sha1_hexdigest = sha1_sample, BLOCK_SIZE = 4096, objdir_path = ustr ''.git/fat/objects'',
      module_globals = {Itertools, Logger, Umask}\<rparr>"

definition rt_v1 :: runtime where
  "rt_v1 =
     \<lparr>GIT_FAT_VERSION = Some (ustr ''1''), GIT_FAT_VERBOSE = None,
      sha1_hexdigest = sha1_sample, BLOCK_SIZE = 4096, objdir_path = ustr ''.git/fat/objects'',
      module_globals = {Itertools, Logger, Umask}\<rparr>"

definition digest_dummy :: pystr where
  "digest_dummy = ustr ''829c3804401b0727f70f73d4415e162400cbe57b''"

text \<open>The version 2 placeholder of \<open>hello world\<close> (11 octets), its digest, a name for
  the temporary file and a state with an empty object directory and nothing written.\<close>

definition placeholder_hello :: pystr where
  "placeholder_hello =
     ustr ''#$# git-fat 2aae6c35c94fcfb415dbe95f408b9ce91ee846ed                   11'' @ [10]"

definition digest_hello :: pystr where
  "digest_hello = ustr ''2aae6c35c94fcfb415dbe95f408b9ce91ee846ed''"

text \<open>A text of 73 characters and 74 octets that decodes as a placeholder: that of
  \<open>hello world\<close> with two of its padding spaces replaced by one no-break space U+00A0
  (the octets C2 A0), which \<open>split()\<close> takes for whitespace. Its octets are
  \<open>odd74_octets\<close>.\<close>

definition odd74 :: pystr where
  "odd74 =
     ustr ''#$# git-fat 2aae6c35c94fcfb415dbe95f408b9ce91ee846ed'' @ [160]
     @ ustr ''                 11'' @ [10]"

definition tmp_sample :: pystr where
  "tmp_sample = ustr ''tmpk3x9p2a''"

definition empty_state :: fat_state where
  "empty_state = \<lparr>objdir = Map.empty, stdout = []\<rparr>"

text \<open>
  The output of \<open>git cat-file --batch\<close> that the consumer reads, as the scanner's
  pipeline produces it: for each blob a header \<open><objhash> blob <size>\<close>, a line feed,
  the \<open>size\<close> octets of the content and one more line feed.
\<close>

definition batch_record :: "pybytes \<Rightarrow> pybytes \<Rightarrow> pybytes" where
  "batch_record objhash content =
     objhash @ '' blob '' @ map char_of (dec_digits (length content)) @ [CHR 0x0A]
     @ content @ [CHR 0x0A]"

fun batch_output :: "(pybytes \<times> pybytes) list \<Rightarrow> pybytes" where
  "batch_output [] = []"
| "batch_output ((objhash, content) # records) =
     batch_record objhash content @ batch_output records"

definition ascii :: "pybytes \<Rightarrow> bool" where
  "ascii b \<longleftrightarrow> list_all (\<lambda>c. of_char c < (128::nat)) b"

definition is_objhash :: "pybytes \<Rightarrow> bool" where
  "is_objhash h \<longleftrightarrow> length h = 40 \<and> is_hexdigest (map of_char h)"

text \<open>The digests of the records whose content decodes, and the records on which the
  consumer does not stop: a git object name, ASCII content, and a content on which
  \<open>decode\<close> raises nothing but \<open>DecodeError\<close>.\<close>

definition placeholder_digests :: "(pybytes \<times> pybytes) list \<Rightarrow> pystr set" where
  "placeholder_digests records =
     {d. \<exists>(h, c) \<in> set records. \<exists>b. decode (map of_char c) False = Inr (Some d, b)}"

definition scannable :: "pybytes \<times> pybytes \<Rightarrow> bool" where
  "scannable r \<longleftrightarrow>
     is_objhash (fst r) \<and> ascii (snd r) \<and>
     decode (map of_char (snd r)) False \<noteq> Inl IndexError \<and>
     decode (map of_char (snd r)) False \<noteq> Inl ValueError"

text \<open>
  Sample blobs of a history: two of 53 octets (the version 1 magic length) that begin with
  the prefix and are malformed, one with no token after it and one whose second token is
  no number; and the placeholder of \<open>hello world\<close> as octets.
\<close>

definition blob_no_token :: pybytes where
  "blob_no_token = ''#$# git-fat '' @ replicate 41 (CHR '' '')"

definition blob_bad_size :: pybytes where
  "blob_bad_size = ''#$# git-fat abc xyz'' @ replicate 34 (CHR '' '')"

definition blob_hello :: pybytes where
  "blob_hello =
     ''#$# git-fat 2aae6c35c94fcfb415dbe95f408b9ce91ee846ed                   11''
     @ [CHR 0x0A]"

definition objhash_a :: pybytes where
  "objhash_a = ''829c3804401b0727f70f73d4415e162400cbe57b''"

definition objhash_b :: pybytes where
  "objhash_b = ''a9993e364706816aba3e25717850c26c9cd0d89d''"

text \<open>A store with the blob of \<open>hello world\<close> and one more blob.\<close>

definition store_two :: fat_state where
  "store_two =
     \<lparr>objdir = [digest_hello \<mapsto> ustr ''hello world'', digest_dummy \<mapsto> ustr ''dummy''],
      stdout = []\<rparr>"

section \<open>Properties of the codec\<close>

lemma rt_shipped_fields:
  "GIT_FAT_VERSION rt_shipped = None" "GIT_FAT_VERBOSE rt_shipped = None"
  "sha1_hexdigest rt_shipped = sha1_sample" "BLOCK_SIZE rt_shipped = 4096"
  "objdir_path rt_shipped = ustr ''.git/fat/objects''" "module_globals rt_shipped = {}"
  by (simp_all add: rt_shipped_def)

lemma rt_verbose_fields:
  "GIT_FAT_VERSION rt_verbose = None" "GIT_FAT_VERBOSE rt_verbose = Some (ustr ''1'')"
  "sha1_hexdigest rt_verbose = sha1_sample" "BLOCK_SIZE rt_verbose = 4096"
  "objdir_path rt_verbose = ustr ''.git/fat/objects''"
  "module_globals rt_verbose = {Itertools, Logger, Umask}"
  by (simp_all add: rt_verbose_def)

lemma rt_v2_fields:
  "GIT_FAT_VERSION rt_v2 = None" "GIT_FAT_VERBOSE rt_v2 = None"
  "sha1_hexdigest rt_v2 = sha1_sample" "BLOCK_SIZE rt_v2 = 4096"
  "objdir_path rt_v2 = ustr ''.git/fat/objects''"
  "module_globals rt_v2 = {Itertools, Logger, Umask}"
  by (simp_all add: rt_v2_def)

lemma split_acc_word:
  "\<forall>c \<in> set w. \<not> isspace c \<Longrightarrow> split_acc cur (w @ rest) = split_acc (cur @ w) rest"
  by (induction w arbitrary: cur) simp_all

lemma split_acc_spaces:
  "split_acc [] (replicate k 32 @ rest) = split_acc [] rest"
  by (induction k) (simp_all add: isspace_def)

lemma py_split_two:
  assumes "d \<noteq> []" "\<forall>c \<in> set d. \<not> isspace c" "t \<noteq> []" "\<forall>c \<in> set t. \<not> isspace c"
  shows "py_split (d @ [32] @ replicate k 32 @ t @ [10]) = [d, t]"
proof -
  have "split_acc [] (d @ [32] @ replicate k 32 @ t @ [10])
        = split_acc d ([32] @ replicate k 32 @ t @ [10])"
    using split_acc_word [OF assms(2), of "[]"] by simp
  also have "\<dots> = d # split_acc [] (replicate k 32 @ t @ [10])"
    using assms(1) by (simp add: isspace_def)
  also have "\<dots> = d # split_acc [] (t @ [10])"
    by (simp only: split_acc_spaces)
  also have "\<dots> = d # split_acc t [10]"
    using split_acc_word [OF assms(4), of "[]" "[10]"] by simp
  also have "\<dots> = [d, t]"
    using assms(3) by (simp add: isspace_def)
  finally show ?thesis by (simp add: py_split_def)
qed

lemma py_split_one:
  assumes "d \<noteq> []" "\<forall>c \<in> set d. \<not> isspace c"
  shows "py_split (d @ [10]) = [d]"
proof -
  have "split_acc [] (d @ [10]) = split_acc d [10]"
    using split_acc_word [OF assms(2), of "[]" "[10]"] by simp
  also have "\<dots> = [d]"
    using assms(1) by (simp add: isspace_def)
  finally show ?thesis by (simp add: py_split_def)
qed

lemma dec_digits_nonempty: "dec_digits n \<noteq> []"
  by (subst dec_digits.simps) simp

lemma dec_digits_isdigit: "c \<in> set (dec_digits n) \<Longrightarrow> isdigit c"
proof (induction n arbitrary: c rule: dec_digits.induct)
  case (1 n)
  show ?case
  proof (cases "n < 10")
    case True
    with "1.prems" show ?thesis
      by (subst (asm) dec_digits.simps) (simp add: isdigit_def)
  next
    case False
    with "1.prems" have "c \<in> set (dec_digits (n div 10)) \<or> c = 48 + n mod 10"
      by (subst (asm) dec_digits.simps) auto
    then show ?thesis
    proof
      assume "c \<in> set (dec_digits (n div 10))"
      with False "1.IH" show ?thesis by simp
    next
      assume "c = 48 + n mod 10"
      moreover have "n mod 10 < 10" by simp
      ultimately show ?thesis unfolding isdigit_def by linarith
    qed
  qed
qed

lemma decimal_value_ascii: "isdigit c \<Longrightarrow> decimal_value c = Some (c - 48)"
  by (simp add: decimal_value_def decimal_zeros_def isdigit_def)

lemma parse_digits_all:
  "\<forall>c \<in> set ds. isdigit c \<Longrightarrow>
     parse_digits acc ds = Some (foldl (\<lambda>a c. 10 * a + (c - 48)) acc ds)"
  by (induction ds arbitrary: acc) (simp_all add: decimal_value_ascii)

lemma foldl_dec_digits:
  "foldl (\<lambda>a c. 10 * a + (c - 48)) acc (dec_digits n) = 10 ^ length (dec_digits n) * acc + n"
proof (induction n arbitrary: acc rule: dec_digits.induct)
  case (1 n)
  show ?case
  proof (cases "n < 10")
    case True
    then show ?thesis by (subst (1 2) dec_digits.simps) simp
  next
    case False
    then have unfold: "dec_digits n = dec_digits (n div 10) @ [48 + n mod 10]"
      by (subst dec_digits.simps) simp
    have "foldl (\<lambda>a c. 10 * a + (c - 48)) acc (dec_digits n)
          = 10 * (10 ^ length (dec_digits (n div 10)) * acc + n div 10) + n mod 10"
      using False by (simp add: unfold "1.IH")
    also have "\<dots> = 10 ^ length (dec_digits n) * acc + (10 * (n div 10) + n mod 10)"
      by (simp add: unfold algebra_simps)
    finally show ?thesis by simp
  qed
qed

lemma digit_not_space: "isdigit c \<Longrightarrow> \<not> isspace c"
  by (auto simp: isdigit_def isspace_def)

lemma strip_id:
  assumes "\<forall>c \<in> set s. \<not> isspace c"
  shows "strip s = s"
proof -
  have a: "dropWhile isspace s = s"
    using assms by (cases s) simp_all
  have b: "dropWhile isspace (rev s) = rev s"
    using assms by (cases "rev s") (simp, metis dropWhile.simps(2) list.set_intros(1) set_rev)
  show ?thesis by (simp add: strip_def a b)
qed

lemma py_int_dec_digits: "py_int (dec_digits n) = Some (int n)"
proof -
  obtain c cs where cs: "dec_digits n = c # cs"
    using dec_digits_nonempty by (cases "dec_digits n") auto
  have dig: "\<forall>x \<in> set (c # cs). isdigit x"
    using dec_digits_isdigit cs by metis
  then have nsp: "\<forall>x \<in> set (dec_digits n). \<not> isspace x"
    using digit_not_space cs by auto
  have c: "isdigit c" using dig by simp
  then have nosign: "c \<noteq> 43" "c \<noteq> 45" by (auto simp: isdigit_def)
  have "foldl (\<lambda>a c. 10 * a + (c - 48)) 0 (c # cs) = n"
    using foldl_dec_digits [of 0 n] cs by simp
  then have val: "foldl (\<lambda>a c. 10 * a + (c - 48)) (c - 48) cs = n" by simp
  have "parse_digits (c - 48) cs = Some n"
    using parse_digits_all [of cs "c - 48"] dig val by simp
  moreover have "strip (c # cs) = c # cs"
    using strip_id [OF nsp] cs by simp
  ultimately show ?thesis
    using nosign by (simp add: py_int_def cs decimal_value_ascii [OF c])
qed

lemma py_int_fmt_d: "0 \<le> n \<Longrightarrow> py_int (fmt_d n) = Some n"
  by (simp add: fmt_d_def py_int_dec_digits)

lemma fmt_d_token: "0 \<le> n \<Longrightarrow> fmt_d n \<noteq> [] \<and> (\<forall>c \<in> set (fmt_d n). \<not> isspace c)"
  using dec_digits_nonempty dec_digits_isdigit digit_not_space
  by (auto simp: fmt_d_def)

lemma hexdigest_token: "is_hexdigest d \<Longrightarrow> d \<noteq> [] \<and> (\<forall>c \<in> set d. \<not> isspace c)"
  by (auto simp: is_hexdigest_def isspace_def list_all_iff)

lemma cookie_length: "length cookie = 12"
  by (simp add: cookie_def ustr_def)

lemma decode_v2_text:
  assumes "is_hexdigest d" "0 \<le> n"
  shows "decode (cookie @ d @ [32] @ pad_left 20 (fmt_d n) @ [10]) noraise = Inr (Some d, Some n)"
proof -
  have "py_split (d @ [32] @ replicate (20 - length (fmt_d n)) 32 @ fmt_d n @ [10]) = [d, fmt_d n]"
    using hexdigest_token [OF assms(1)] fmt_d_token [OF assms(2)] by (intro py_split_two) auto
  then show ?thesis
    using assms(2) by (simp add: decode_def pad_left_def py_int_fmt_d)
qed

lemma decode_v1_text:
  assumes "is_hexdigest d"
  shows "decode (encode_v1 d b) noraise = Inr (Some d, None)"
  using py_split_one hexdigest_token [OF assms]
  by (simp add: decode_def encode_v1_def)

lemma encode_int:
  "encode rt d (Some n) =
     Inr (if GIT_FAT_VERSION rt = Some (ustr ''1'') then cookie @ d @ [10]
          else cookie @ d @ [32] @ pad_left 20 (fmt_d n) @ [10])"
  by (simp add: encode_def encode_v1_def encode_v2_def)

lemma dec_digits_short: "n < 10 ^ k \<Longrightarrow> 0 < k \<Longrightarrow> length (dec_digits n) \<le> k"
proof (induction n arbitrary: k rule: dec_digits.induct)
  case (1 n)
  show ?case
  proof (cases "n < 10")
    case True
    then show ?thesis using "1.prems" by (subst dec_digits.simps) simp
  next
    case False
    obtain j where k: "k = Suc j" using "1.prems"(2) by (cases k) auto
    have "j \<noteq> 0" using False "1.prems"(1) k by (cases j) auto
    moreover have "n div 10 < 10 ^ j" using "1.prems"(1) k by (simp add: less_mult_imp_div_less)
    ultimately have "length (dec_digits (n div 10)) \<le> j"
      using "1.IH" [OF False, of j] by simp
    then show ?thesis using False k by (subst dec_digits.simps) simp
  qed
qed

lemma dec_digits_long: "10 ^ k \<le> n \<Longrightarrow> k < length (dec_digits n)"
proof (induction n arbitrary: k rule: dec_digits.induct)
  case (1 n)
  show ?case
  proof (cases k)
    case 0
    then show ?thesis using dec_digits_nonempty [of n] by (cases "dec_digits n") auto
  next
    case (Suc j)
    have "(1::nat) \<le> 10 ^ j" by simp
    then have "(10::nat) \<le> 10 ^ Suc j" by simp
    moreover have "10 ^ Suc j \<le> n" using "1.prems" Suc by simp
    ultimately have big: "\<not> n < 10" by linarith
    have "10 ^ j \<le> n div 10"
    proof -
      have "10 * 10 ^ j \<le> n" using "1.prems" Suc by simp
      then have "(10 * 10 ^ j) div 10 \<le> n div 10" by (rule div_le_mono)
      then show ?thesis by simp
    qed
    then have "j < length (dec_digits (n div 10))" using "1.IH" [OF big] by simp
    then show ?thesis using big Suc by (subst dec_digits.simps) simp
  qed
qed

lemma fmt_d_width:
  assumes "0 \<le> n"
  shows "length (pad_left 20 (fmt_d n)) = (if n < 10 ^ 20 then 20 else length (fmt_d n))"
    and "10 ^ 20 \<le> n \<Longrightarrow> 20 < length (fmt_d n)"
proof -
  have f: "fmt_d n = dec_digits (nat n)" using assms by (simp add: fmt_d_def)
  show "length (pad_left 20 (fmt_d n)) = (if n < 10 ^ 20 then 20 else length (fmt_d n))"
  proof (cases "n < 10 ^ 20")
    case True
    then have "nat n < 10 ^ 20" using assms by (simp add: nat_less_iff)
    then have "length (dec_digits (nat n)) \<le> 20" by (rule dec_digits_short) simp
    then show ?thesis using True by (simp add: pad_left_def f)
  next
    case False
    then have "(10::nat) ^ 20 \<le> nat n" by (simp add: le_nat_iff)
    then have "20 < length (dec_digits (nat n))" by (rule dec_digits_long)
    then show ?thesis using False by (simp add: pad_left_def f)
  qed
  show "10 ^ 20 \<le> n \<Longrightarrow> 20 < length (fmt_d n)"
  proof -
    assume "10 ^ 20 \<le> n"
    then have "(10::nat) ^ 20 \<le> nat n" by (simp add: le_nat_iff)
    then show ?thesis unfolding f by (rule dec_digits_long)
  qed
qed

lemma digest_dummy_hex: "is_hexdigest digest_dummy"
  by (simp add: is_hexdigest_def digest_dummy_def ustr_def)

subsection \<open>C5: decoding an encoded placeholder\<close>

text \<open>
  C5, as amended. For every 40-character lowercase hexadecimal digest \<open>d\<close> and every
  integer \<open>n \<ge> 0\<close>, \<open>decode(encode(d, n))\<close> raises nothing and returns the digest \<open>d\<close>;
  the size it returns is \<open>n\<close> under the default version 2, and \<open>None\<close> when the process
  runs with \<open>GIT_FAT_VERSION=1\<close>, whose placeholder carries no size.
\<close>

theorem decode_encode_roundtrip:
  assumes "is_hexdigest d" and "0 \<le> n"
  shows "decode_encoded rt d n noraise =
           Inr (Some d, if GIT_FAT_VERSION rt = Some (ustr ''1'') then None else Some n)"
proof (cases "GIT_FAT_VERSION rt = Some (ustr ''1'')")
  case True
  then show ?thesis
    using decode_v1_text [OF assms(1), of "Some n" noraise]
    by (simp add: decode_encoded_def and_then_def encode_int encode_v1_def)
next
  case False
  then show ?thesis
    using decode_v2_text [OF assms, of noraise]
    by (simp add: decode_encoded_def and_then_def encode_int)
qed

theorem decode_encode_roundtrip_witness:
  "is_hexdigest digest_dummy \<and> (0::int) \<le> 11 \<and>
   decode_encoded rt_v2 digest_dummy 11 False = Inr (Some digest_dummy, Some 11) \<and>
   decode_encoded rt_v1 digest_dummy 11 False = Inr (Some digest_dummy, None)"
  using decode_encode_roundtrip [OF digest_dummy_hex, of 11 rt_v2 False]
        decode_encode_roundtrip [OF digest_dummy_hex, of 11 rt_v1 False]
        digest_dummy_hex
  by (simp add: rt_v2_def rt_v1_def)

text \<open>The claim as stated fails under \<open>GIT_FAT_VERSION=1\<close>: the size 11 is not
  returned.\<close>

theorem decode_encode_v1_counterexample:
  "decode_encoded rt_v1 digest_dummy 11 False \<noteq> Inr (Some digest_dummy, Some 11)"
  by (simp add: decode_encoded_def and_then_def encode_int rt_v1_def
        decode_v1_text [OF digest_dummy_hex, unfolded encode_v1_def])

subsection \<open>C7: the length of a placeholder\<close>

text \<open>
  C7, as amended. For a fixed placeholder version, the length of \<open>encode(d, n)\<close> is the
  same for all 40-character hexadecimal digests \<open>d\<close> and all integers \<open>n\<close> that fit the
  padded field, \<open>0 \<le> n < 10^20\<close>: 74 characters under version 2 and 53 under version 1
  (where \<open>n\<close> is not written, so every \<open>n\<close> gives 53). Under version 2 a size of 21 digits
  or more widens the field and the placeholder is longer than 74 characters.
\<close>

theorem encode_length:
  assumes "is_hexdigest d" and "0 \<le> n"
  shows "encoded_len rt d n =
           Inr (if GIT_FAT_VERSION rt = Some (ustr ''1'') then 53
                else if n < 10 ^ 20 then 74
                else 54 + length (fmt_d n))
         \<and> (if 10 ^ 20 \<le> n then 74 < 54 + length (fmt_d n) else True)"
proof -
  have d: "length d = 40" using assms(1) by (simp add: is_hexdigest_def)
  have "encoded_len rt d n =
           Inr (if GIT_FAT_VERSION rt = Some (ustr ''1'') then 53
                else if n < 10 ^ 20 then 74
                else 54 + length (fmt_d n))"
    using fmt_d_width(1) [OF assms(2)]
    by (simp add: encoded_len_def and_then_def encode_int cookie_length d)
  moreover have "10 ^ 20 \<le> n \<Longrightarrow> 74 < 54 + length (fmt_d n)"
    using fmt_d_width(2) [OF assms(2)] by simp
  ultimately show ?thesis by simp
qed

theorem encode_length_witness:
  "is_hexdigest digest_dummy \<and> (0::int) \<le> 5 \<and>
   encoded_len rt_v2 digest_dummy 5 = Inr 74 \<and> encoded_len rt_v1 digest_dummy 5 = Inr 53"
  using encode_length [OF digest_dummy_hex, of 5 rt_v2]
        encode_length [OF digest_dummy_hex, of 5 rt_v1] digest_dummy_hex
  by (simp add: rt_v2_def rt_v1_def)

text \<open>The claim as stated fails at a size of 21 digits: the version 2 placeholder of
  \<open>10^20\<close> has 75 characters, that of 5 has 74.\<close>

theorem encode_length_counterexample:
  "encoded_len rt_v2 digest_dummy 100000000000000000000 = Inr 75 \<and>
   encoded_len rt_v2 digest_dummy 5 = Inr 74"
  by (simp add: encoded_len_def and_then_def encode_int rt_v2_def cookie_length
        digest_dummy_def ustr_def pad_left_def fmt_d_def dec_digits.simps)

subsection \<open>C10: \<open>decode\<close> with \<open>noraise=True\<close>\<close>

text \<open>
  C10. With \<open>noraise=True\<close>, \<open>decode\<close> should return a pair for every input and never
  raise. The code raises \<open>IndexError\<close> on the bare prefix \<open>"#$# git-fat "\<close> and
  \<open>ValueError\<close> on \<open>"#$# git-fat abc xyz"\<close>, and \<open>decode_clean\<close> passes both on.
\<close>

theorem decode_noraise_raises:
  "decode (ustr ''#$# git-fat '') True = Inl IndexError \<and>
   decode (ustr ''#$# git-fat abc xyz'') True = Inl ValueError \<and>
   decode_clean (ustr ''#$# git-fat '') = Inl IndexError \<and>
   decode_clean (ustr ''#$# git-fat abc xyz'') = Inl ValueError"
  by (simp add: decode_clean_def and_then_def decode_def cookie_def ustr_def py_split_def
        isspace_def py_int_def strip_def decimal_value_def decimal_zeros_def)

section \<open>Properties of the clean filter\<close>

lemma utf8_encode_append:
  "utf8_encode (a @ b) =
     and_then (utf8_encode a) (\<lambda>ea. and_then (utf8_encode b) (\<lambda>eb. Inr (ea @ eb)))"
  by (induction a) (auto simp: and_then_def split: option.splits sum.splits)

lemma readblocks_concat: "0 < n \<Longrightarrow> concat (readblocks n s) = s"
proof (induction n s rule: readblocks.induct)
  case (1 n s)
  then show ?case by (subst readblocks.simps) simp
qed

lemma readblocks_Cons: "readblocks n s = b # bs \<Longrightarrow> 0 < n"
  by (subst (asm) readblocks.simps) (auto split: if_splits)

lemma clean_blocks_rest:
  assumes "\<not> firstblock v" and "utf8_encode (concat blocks) = Inr enc"
  shows "clean_blocks rt v blocks =
           (None,
            if ishanging v
            then v\<lparr>hasher := hasher v @ enc,
                   nbytes := nbytes v + int (length (concat blocks)),
                   outstreamclean := outstreamclean v @ concat blocks\<rparr>
            else v\<lparr>hasher := hasher v @ enc,
                   nbytes := nbytes v + int (length (concat blocks)),
                   cache := cache v @ concat blocks\<rparr>)"
  using assms
proof (induction blocks arbitrary: v enc)
  case Nil
  then show ?case by simp
next
  case (Cons b bs)
  from Cons.prems(2) obtain eb er where eb: "utf8_encode b = Inr eb"
    and er: "utf8_encode (concat bs) = Inr er" and enc: "enc = eb @ er"
    by (auto simp: utf8_encode_append and_then_def split: sum.splits)
  show ?case
  proof (cases "ishanging v")
    case True
    then show ?thesis
      using Cons.prems(1) eb enc
      by (simp add: clean_block_def and_then_def Let_def Cons.IH [OF _ er])
  next
    case False
    then show ?thesis
      using Cons.prems(1) eb enc
      by (simp add: clean_block_def and_then_def Let_def Cons.IH [OF _ er])
  qed
qed

lemma clean_blocks_first:
  assumes "firstblock v" and "\<not> ishanging v" and "hanging_test rt b = Inr hg"
    and "utf8_encode (concat (b # bs)) = Inr enc"
  shows "clean_blocks rt v (b # bs) =
           (None,
            if hg
            then v\<lparr>hasher := hasher v @ enc,
                   nbytes := nbytes v + int (length (concat (b # bs))),
                   ishanging := True, firstblock := False,
                   outstreamclean := outstreamclean v @ concat (b # bs)\<rparr>
            else v\<lparr>hasher := hasher v @ enc,
                   nbytes := nbytes v + int (length (concat (b # bs))),
                   firstblock := False,
                   cache := cache v @ concat (b # bs)\<rparr>)"
proof -
  from assms(4) obtain eb er where eb: "utf8_encode b = Inr eb"
    and er: "utf8_encode (concat bs) = Inr er" and enc: "enc = eb @ er"
    by (auto simp: utf8_encode_append and_then_def split: sum.splits)
  show ?thesis
    using assms(1,2,3) eb enc
    by (cases hg) (simp_all add: clean_block_def and_then_def Let_def clean_blocks_rest [OF _ er])
qed

lemma split_acc_no_empty: "[] \<notin> set (split_acc cur s)"
  by (induction s arbitrary: cur) auto

lemma decode_digest_nonempty: "decode s noraise = Inr (Some d, b) \<Longrightarrow> d \<noteq> []"
  using split_acc_no_empty [of "[]" "drop (length cookie) s"]
  by (auto simp: decode_def py_split_def split: if_splits list.splits option.splits)

lemma decode_clean_truthy: "decode_clean block = Inr (Some d) \<Longrightarrow> truthy (Some d)"
  using decode_digest_nonempty [of block True d]
  by (auto simp: decode_clean_def and_then_def truthy_def split: sum.splits prod.splits)

lemma restrict_tmp: "m t = None \<Longrightarrow> m |` (- {t}) = m"
  by (rule ext) (auto simp: restrict_map_def)

lemma restrict_tmp_upd: "m t = None \<Longrightarrow> (m |` (- {t} - {d}))(d \<mapsto> c) = m(d \<mapsto> c)"
  by (rule ext) (auto simp: restrict_map_def)

text \<open>
  What \<open>filter_clean\<close> does with text that it does not take for a placeholder: the four
  outcomes, by whether the blob is already stored and which names are bound.
\<close>

lemma filter_clean_fresh:
  assumes "first_block_hanging rt instream = Inr False"
    and "utf8_encode instream = Inr enc"
    and "0 < BLOCK_SIZE rt"
    and "tmpname \<notin> dom (objdir s)" and "tmpname \<noteq> sha1_hexdigest rt enc"
  shows "filter_clean rt tmpname instream s =
           (let digest = sha1_hexdigest rt enc;
                objfile = path_join (objdir_path rt) digest;
                p = (if GIT_FAT_VERSION rt = Some (ustr ''1'') then cookie @ digest @ [10]
                     else cookie @ digest @ [32]
                          @ pad_left 20 (fmt_d (int (length instream))) @ [10])
            in if digest \<in> dom (objdir s) then
                 (None,
                  \<lparr>objdir = objdir s,
                   stdout = logging_debug rt
                              (ustr ''git-fat filter-clean: cache already exists '' @ objfile)
                              (stdout s) @ p\<rparr>)
               else if Umask \<notin> module_globals rt then
                 (Some NameError, \<lparr>objdir = objdir s, stdout = stdout s\<rparr>)
               else if Logger \<notin> module_globals rt then
                 (Some FileNotFoundError,
                  \<lparr>objdir = (objdir s)(digest \<mapsto> instream), stdout = stdout s\<rparr>)
               else
                 (None,
                  \<lparr>objdir = (objdir s)(digest \<mapsto> instream),
                   stdout = logging_debug rt (ustr ''git-fat filter-clean: caching to '' @ objfile)
                              (stdout s) @ p\<rparr>))"
proof (cases "readblocks (BLOCK_SIZE rt) instream")
  case Nil
  then have "instream = []" using readblocks_concat [OF assms(3), of instream] by simp
  then have "enc = []" using assms(2) by simp
  then show ?thesis
    using Nil assms(4,5) \<open>instream = []\<close>
    by (auto simp: filter_clean_def Let_def encode_int restrict_tmp restrict_tmp_upd
          logger_debug_def)
next
  case (Cons b bs)
  have cat: "instream = b @ concat bs"
    using readblocks_concat [OF assms(3), of instream] Cons by simp
  have ht: "hanging_test rt b = Inr False"
    using assms(1) Cons by (simp add: first_block_hanging_def)
  have e: "utf8_encode (concat (b # bs)) = Inr enc" using assms(2) cat by simp
  show ?thesis
    using assms(4,5)
    by (auto simp: filter_clean_def Let_def Cons [unfolded cat] clean_blocks_first [OF _ _ ht e]
          cat encode_int restrict_tmp restrict_tmp_upd logger_debug_def
          simp del: clean_blocks.simps)
qed

text \<open>With the three names bound and logging quiet, new content is stored and its
  placeholder written.\<close>

lemma filter_clean_admits:
  assumes "first_block_hanging rt instream = Inr False"
    and "utf8_encode instream = Inr enc"
    and "0 < BLOCK_SIZE rt"
    and "tmpname \<notin> dom (objdir s)" and "tmpname \<noteq> sha1_hexdigest rt enc"
    and "Umask \<in> module_globals rt" and "Logger \<in> module_globals rt"
    and "GIT_FAT_VERBOSE rt = None"
  shows "filter_clean rt tmpname instream s =
           (None,
            \<lparr>objdir = (if sha1_hexdigest rt enc \<in> dom (objdir s) then objdir s
                       else (objdir s)(sha1_hexdigest rt enc \<mapsto> instream)),
             stdout = stdout s @
               (if GIT_FAT_VERSION rt = Some (ustr ''1'')
                then cookie @ sha1_hexdigest rt enc @ [10]
                else cookie @ sha1_hexdigest rt enc @ [32]
                     @ pad_left 20 (fmt_d (int (length instream))) @ [10])\<rparr>)"
  using assms(6,7,8)
  by (simp add: filter_clean_fresh [OF assms(1,2,3,4,5)] Let_def logging_debug_def)

text \<open>As shipped, content whose blob is not yet stored is neither stored nor encoded:
  \<open>umask\<close> is unbound.\<close>

lemma filter_clean_unbound_umask:
  assumes "first_block_hanging rt instream = Inr False"
    and "utf8_encode instream = Inr enc"
    and "0 < BLOCK_SIZE rt"
    and "tmpname \<notin> dom (objdir s)" and "tmpname \<noteq> sha1_hexdigest rt enc"
    and "sha1_hexdigest rt enc \<notin> dom (objdir s)"
    and "Umask \<notin> module_globals rt"
  shows "filter_clean rt tmpname instream s = (Some NameError, s)"
  using assms(6,7)
  by (simp add: filter_clean_fresh [OF assms(1,2,3,4,5)] Let_def)

text \<open>A first block of \<open>magiclen\<close> characters that decodes makes the input hanging: all of
  it goes to the clean output and the store is left as it was, whatever names are bound.\<close>

lemma filter_clean_hanging_text:
  assumes "readblocks (BLOCK_SIZE rt) instream = block # blocks"
    and "length block = magiclen rt"
    and "decode_clean block = Inr (Some digest)"
    and "utf8_encode instream = Inr enc"
    and "tmpname \<notin> dom (objdir s)"
  shows "filter_clean rt tmpname instream s = (None, s\<lparr>stdout := stdout s @ instream\<rparr>)"
proof -
  have bs: "0 < BLOCK_SIZE rt" using assms(1) by (rule readblocks_Cons)
  have cat: "instream = block @ concat blocks"
    using readblocks_concat [OF bs, of instream] assms(1) by simp
  have ht: "hanging_test rt block = Inr True"
    using assms(2,3) decode_clean_truthy [OF assms(3)]
    by (simp add: hanging_test_def and_then_def)
  have e: "utf8_encode (concat (block # blocks)) = Inr enc" using assms(4) cat by simp
  have rm: "objdir s |` (- {tmpname}) = objdir s"
    using assms(5) by (intro restrict_tmp) (simp add: domIff)
  have "filter_clean rt tmpname instream s
        = (None, \<lparr>objdir = objdir s, stdout = stdout s @ instream\<rparr>)"
    by (simp add: filter_clean_def Let_def assms(1) [unfolded cat]
          clean_blocks_first [OF _ _ ht e] cat rm del: clean_blocks.simps)
  then show ?thesis by (cases s) simp
qed

lemma replicate_numeral: "replicate (numeral k) x = x # replicate (pred_numeral k) x"
  by (simp add: numeral_eq_Suc)

lemma magiclen_v2: "magiclen rt_v2 = 74"
  by (simp add: magiclen_def calculate_magic_len_def encode_int dummy_hash_def rt_v2_def
        sha1_sample_def cookie_length ustr_def pad_left_def fmt_d_def dec_digits.simps)

lemma sha1_sample_length: "length (sha1_sample b) = 40"
  by (simp add: sha1_sample_def ustr_def)

lemma magiclen_v2_general:
  assumes "GIT_FAT_VERSION rt \<noteq> Some (ustr ''1'')" and "length (dummy_hash rt) = 40"
  shows "magiclen rt = 74"
  using assms
  by (simp add: magiclen_def calculate_magic_len_def encode_int cookie_length pad_left_def
        fmt_d_def dec_digits.simps)

lemma magiclen_shipped: "magiclen rt_shipped = 74"
  by (simp add: magiclen_def calculate_magic_len_def encode_int dummy_hash_def rt_shipped_def
        sha1_sample_def cookie_length ustr_def pad_left_def fmt_d_def dec_digits.simps)

lemma placeholder_hello_block: "readblocks 4096 placeholder_hello = [placeholder_hello]"
proof -
  have "placeholder_hello \<noteq> []" by (simp add: placeholder_hello_def)
  moreover have "length placeholder_hello = 74" by (simp add: placeholder_hello_def ustr_def)
  ultimately show ?thesis
    by (subst readblocks.simps, subst readblocks.simps) simp
qed

lemma placeholder_hello_decode: "decode_clean placeholder_hello = Inr (Some digest_hello)"
  by (simp add: decode_clean_def and_then_def decode_def cookie_def placeholder_hello_def ustr_def
        py_split_def isspace_def py_int_def strip_def decimal_value_def decimal_zeros_def digest_hello_def)

lemma placeholder_hello_utf8:
  "utf8_encode placeholder_hello = Inr (map char_of placeholder_hello)"
  by (simp add: placeholder_hello_def ustr_def utf8_char_def and_then_def)

text \<open>The placeholder of \<open>hello world\<close>, 74 ASCII characters, is hanging: as shipped it is
  written through and the store stays empty.\<close>

lemma clean_hanging_hello:
  "filter_clean rt_shipped tmp_sample placeholder_hello empty_state =
     (None, \<lparr>objdir = Map.empty, stdout = placeholder_hello\<rparr>)"
proof -
  have b: "readblocks (BLOCK_SIZE rt_shipped) placeholder_hello = [placeholder_hello]"
    using placeholder_hello_block by (simp add: rt_shipped_fields)
  have l: "length placeholder_hello = magiclen rt_shipped"
    by (simp add: magiclen_shipped placeholder_hello_def ustr_def)
  have t: "tmp_sample \<notin> dom (objdir empty_state)" by (simp add: empty_state_def)
  show ?thesis
    using filter_clean_hanging_text [OF b l placeholder_hello_decode placeholder_hello_utf8 t]
    by (simp add: empty_state_def)
qed

lemma utf8_encode_ascii: "\<forall>c \<in> set s. c < 128 \<Longrightarrow> utf8_encode s = Inr (map char_of s)"
  by (induction s) (simp_all add: utf8_char_def and_then_def)


text \<open>For ASCII content characters and octets agree: with the names bound and logging
  quiet, clean stores the content under its SHA-1 and writes the placeholder of that
  digest and of the length in octets.\<close>

lemma filter_clean_ascii:
  assumes "\<forall>c \<in> set instream. c < 128"
    and "first_block_hanging rt instream = Inr False"
    and "0 < BLOCK_SIZE rt"
    and "tmpname \<notin> dom (objdir s)"
    and "tmpname \<noteq> sha1_hexdigest rt (map char_of instream)"
    and "Umask \<in> module_globals rt" and "Logger \<in> module_globals rt"
    and "GIT_FAT_VERBOSE rt = None"
  shows "\<exists>p. encode rt (sha1_hexdigest rt (map char_of instream))
                (Some (int (length (map char_of instream :: pybytes)))) = Inr p \<and>
             filter_clean rt tmpname instream s =
               (None,
                \<lparr>objdir =
                   (if sha1_hexdigest rt (map char_of instream) \<in> dom (objdir s) then objdir s
                    else (objdir s)(sha1_hexdigest rt (map char_of instream) \<mapsto> instream)),
                 stdout = stdout s @ p\<rparr>)"
  using filter_clean_admits [OF assms(2) utf8_encode_ascii [OF assms(1)] assms(3,4,5,6,7,8)]
  by (simp add: encode_int)

lemma hello_utf8: "utf8_encode (ustr ''hello world'') = Inr ''hello world''"
  by (simp add: ustr_def utf8_char_def and_then_def char_of_eq_iff take_bit_eq_mod)

lemma hello_not_hanging: "first_block_hanging rt_shipped (ustr ''hello world'') = Inr False"
  by (simp add: first_block_hanging_def rt_shipped_fields readblocks.simps hanging_test_def
        magiclen_shipped ustr_def)

lemma clean_hello_shipped:
  "filter_clean rt_shipped tmp_sample (ustr ''hello world'') empty_state
     = (Some NameError, empty_state)"
proof -
  have c: "0 < BLOCK_SIZE rt_shipped" by (simp add: rt_shipped_def)
  have e: "tmp_sample \<notin> dom (objdir empty_state)" by (simp add: empty_state_def)
  have f: "tmp_sample \<noteq> sha1_hexdigest rt_shipped ''hello world''"
    by (simp add: rt_shipped_def sha1_sample_def tmp_sample_def ustr_def)
  have g: "sha1_hexdigest rt_shipped ''hello world'' \<notin> dom (objdir empty_state)"
    by (simp add: empty_state_def)
  have u: "Umask \<notin> module_globals rt_shipped" by (simp add: rt_shipped_def)
  show ?thesis
    by (rule filter_clean_unbound_umask [OF hello_not_hanging hello_utf8 c e f g u])
qed

subsection \<open>C1: what clean stores and writes\<close>

text \<open>
  C1. After \<open>filter_clean\<close> the clean output should hold the placeholder of the SHA-1 of
  the content and of its length in octets. The code adds \<open>len(block)\<close> of a \<open>str\<close>, the
  number of characters: for the content \<open>U+00E9\<close> (one character, the two octets C3 A9) it
  hashes the two octets and writes the size 1.
\<close>

theorem filter_clean_counts_characters:
  "utf8_encode [233] = Inr [CHR 0xC3, CHR 0xA9] \<and>
   filter_clean rt_v2 tmp_sample [233] empty_state =
     (None,
      \<lparr>objdir = [ustr ''bf15be717ac1b080b4f1c456692825891ff5073d'' \<mapsto> [233]],
       stdout =
         ustr ''#$# git-fat bf15be717ac1b080b4f1c456692825891ff5073d                    1''
         @ [10]\<rparr>)"
  by (simp add: filter_clean_def rt_v2_fields readblocks.simps clean_block_def and_then_def
        hanging_test_def magiclen_v2 utf8_char_def Let_def sha1_sample_def
        encode_int empty_state_def tmp_sample_def ustr_def cookie_def pad_left_def fmt_d_def
        dec_digits.simps restrict_map_def fun_eq_iff char_of_eq_iff take_bit_eq_mod
        replicate_numeral logger_debug_def logging_debug_def path_join_def odd74_octets_def)

subsection \<open>C4: a hanging file\<close>

text \<open>
  C4. An input whose first block is exactly \<open>magic_length\<close> bytes and decodes as a
  placeholder should be written unchanged to the clean output, with no blob admitted and
  no placeholder encoded. The code compares \<open>len(block)\<close>, the number of characters, with
  the magic length: \<open>odd74\<close> has 74 octets, decodes as a placeholder and has 73 characters,
  so it is not taken for hanging. With the three names bound it is stored as a blob and a
  new placeholder, of size 73, is written; as shipped the run ends in \<open>NameError\<close> and
  nothing is written.
\<close>

theorem filter_clean_hanging_counts_characters:
  "utf8_encode odd74 = Inr odd74_octets \<and> length odd74_octets = 74 \<and> magiclen rt_v2 = 74 \<and>
   length odd74 = 73 \<and> decode_clean odd74 = Inr (Some digest_hello) \<and>
   filter_clean rt_v2 tmp_sample odd74 empty_state =
     (None,
      \<lparr>objdir = [ustr ''1fa03a99f3ce79d6d70d12d771560dbb4bcdb977'' \<mapsto> odd74],
       stdout =
         ustr ''#$# git-fat 1fa03a99f3ce79d6d70d12d771560dbb4bcdb977                   73''
         @ [10]\<rparr>) \<and>
   filter_clean rt_shipped tmp_sample odd74 empty_state = (Some NameError, empty_state)"
proof -
  have u: "utf8_encode odd74 = Inr odd74_octets"
    by (simp add: odd74_def odd74_octets_def ustr_def utf8_char_def and_then_def
          char_of_eq_iff take_bit_eq_mod)
  have l: "length odd74_octets = 74" "length odd74 = 73"
    by (simp_all add: odd74_def odd74_octets_def ustr_def)
  have d: "decode_clean odd74 = Inr (Some digest_hello)"
    by (simp add: decode_clean_def and_then_def decode_def cookie_def odd74_def ustr_def
          py_split_def isspace_def py_int_def strip_def decimal_value_def decimal_zeros_def
          digest_hello_def)
  have b: "readblocks 4096 odd74 = [odd74]"
  proof -
    have "odd74 \<noteq> []" by (simp add: odd74_def)
    then show ?thesis using l(2) by (subst readblocks.simps, subst readblocks.simps) simp
  qed
  have h2: "first_block_hanging rt_v2 odd74 = Inr False"
    by (simp add: first_block_hanging_def rt_v2_fields b hanging_test_def magiclen_v2 l)
  have h0: "first_block_hanging rt_shipped odd74 = Inr False"
    by (simp add: first_block_hanging_def rt_shipped_fields b hanging_test_def magiclen_shipped l)
  have t: "tmp_sample \<notin> dom (objdir empty_state)" by (simp add: empty_state_def)
  have s: "sha1_sample odd74_octets = ustr ''1fa03a99f3ce79d6d70d12d771560dbb4bcdb977''"
    by (simp add: sha1_sample_def odd74_octets_def)
  have n: "tmp_sample \<noteq> ustr ''1fa03a99f3ce79d6d70d12d771560dbb4bcdb977''"
    by (simp add: tmp_sample_def ustr_def)
  have bound: "filter_clean rt_v2 tmp_sample odd74 empty_state =
     (None,
      \<lparr>objdir = [ustr ''1fa03a99f3ce79d6d70d12d771560dbb4bcdb977'' \<mapsto> odd74],
       stdout =
         ustr ''#$# git-fat 1fa03a99f3ce79d6d70d12d771560dbb4bcdb977                   73''
         @ [10]\<rparr>)"
    using filter_clean_admits [of rt_v2 odd74 odd74_octets tmp_sample empty_state] h2 u t n
    by (simp add: rt_v2_fields s l empty_state_def cookie_def ustr_def pad_left_def fmt_d_def
          dec_digits.simps replicate_numeral)
  have shipped: "filter_clean rt_shipped tmp_sample odd74 empty_state
                 = (Some NameError, empty_state)"
    using filter_clean_unbound_umask [of rt_shipped odd74 odd74_octets tmp_sample empty_state]
      h0 u t n
    by (simp add: rt_shipped_fields s empty_state_def)
  show ?thesis using u l magiclen_v2 d bound shipped by simp
qed

subsection \<open>C6: the length of the version 2 placeholder\<close>

text \<open>
  C6, as amended. The version 2 (default) placeholder is 74 characters long: for a
  process that runs version 2, \<open>encode(d, n)\<close> of a digest \<open>d\<close> of 40 hexadecimal
  characters and a size \<open>0 \<le> n < 10^20\<close> has 74 characters (12 for the prefix, 40 for
  the digest, a space, 20 for the size, a line feed), and 74 is the magic length computed
  at startup from the 40-character SHA-1 of \<open>dummy\<close>.
\<close>

theorem v2_placeholder_length:
  assumes "GIT_FAT_VERSION rt \<noteq> Some (ustr ''1'')"
    and "length (sha1_hexdigest rt ''dummy'') = 40"
    and "is_hexdigest d" and "0 \<le> n" and "n < 10 ^ 20"
  shows "encoded_len rt d n = Inr 74 \<and> magiclen rt = 74"
proof -
  have m: "magiclen rt = 74"
    using assms(1,2) by (intro magiclen_v2_general) (simp_all add: dummy_hash_def)
  have d: "length d = 40" using assms(3) by (simp add: is_hexdigest_def)
  have "encoded_len rt d n = Inr 74"
    using fmt_d_width(1) [OF assms(4)] assms(1,5)
    by (simp add: encoded_len_def and_then_def encode_int cookie_length d)
  with m show ?thesis by simp
qed

theorem v2_placeholder_length_witness:
  "GIT_FAT_VERSION rt_shipped \<noteq> Some (ustr ''1'') \<and>
   length (sha1_hexdigest rt_shipped ''dummy'') = 40 \<and>
   is_hexdigest digest_dummy \<and> (0::int) \<le> 11 \<and> (11::int) < 10 ^ 20 \<and>
   encoded_len rt_shipped digest_dummy 11 = Inr 74 \<and> magiclen rt_shipped = 74"
proof -
  have a: "GIT_FAT_VERSION rt_shipped \<noteq> Some (ustr ''1'')" by (simp add: rt_shipped_fields)
  have b: "length (sha1_hexdigest rt_shipped ''dummy'') = 40"
    by (simp add: rt_shipped_fields sha1_sample_length)
  have c: "(0::int) \<le> 11" "(11::int) < 10 ^ 20" by simp_all
  show ?thesis
    using v2_placeholder_length [OF a b digest_dummy_hex c] a b digest_dummy_hex by simp
qed

text \<open>The claim as stated fails: the magic length of the default process is 74, not 67,
  and clean of \<open>hello world\<close>, a blob not yet stored, does not write a placeholder of 67
  octets: as shipped it raises \<open>NameError\<close> and writes nothing.\<close>

theorem magic_length_counterexample:
  "magiclen rt_shipped \<noteq> 67 \<and>
   filter_clean rt_shipped tmp_sample (ustr ''hello world'') empty_state
     = (Some NameError, empty_state)"
  using clean_hello_shipped by (simp add: magiclen_shipped)

section \<open>Properties of the smudge filter\<close>

lemma decode_no_cookie: "\<not> prefix cookie x \<Longrightarrow> decode x False = Inl DecodeError"
  by (simp add: decode_def)

lemma magiclen_v1_general:
  assumes "GIT_FAT_VERSION rt = Some (ustr ''1'')" and "length (dummy_hash rt) = 40"
  shows "magiclen rt = 53"
  using assms by (simp add: magiclen_def calculate_magic_len_def encode_int cookie_length)

lemma encode_v1_length: "is_hexdigest d \<Longrightarrow> length (encode_v1 d b) = 53"
  by (simp add: encode_v1_def cookie_length is_hexdigest_def)

lemma utf8_dec_ascii: "\<forall>c \<in> set s. c < 128 \<Longrightarrow> utf8_dec s = Some s"
  by (induction s) simp_all

lemma utf8_decode_ascii: "ascii b \<Longrightarrow> utf8_decode b = Inr (map of_char b)"
  by (simp add: utf8_decode_def ascii_def list_all_iff utf8_dec_ascii)

lemma smudge_v1_missing:
  assumes "utf8_decode stdin = Inr (encode_v1 d b)"
    and "is_hexdigest d" and "GIT_FAT_VERSION rt \<noteq> Some (ustr ''1'')"
    and "53 \<le> magiclen rt" and "objdir s d = None"
  shows "cmd_filter_smudge rt stdin s =
           (if Logger \<in> module_globals rt
            then (Some TypeError,
                  s\<lparr>stdout := logging_debug rt
                                (ustr ''git-fat filter-smudge: fat object missing ''
                                 @ path_join (objdir_path rt) d)
                                (stdout s)\<rparr>)
            else (Some NameError, s))"
proof -
  have t: "take (magiclen rt) (encode_v1 d b) = encode_v1 d b"
    using encode_v1_length [OF assms(2), of b] assms(4) by simp
  have e: "encode rt d None = Inl TypeError"
    using assms(3) by (simp add: encode_def encode_v2_def)
  show ?thesis
    using assms(5)
    by (simp add: cmd_filter_smudge_def assms(1) decode_stream_def Let_def t
          decode_v1_text [OF assms(2)] e logger_debug_def)
qed

text \<open>With \<open>logger\<close> bound and logging quiet, a placeholder of the version the process
  writes, whose blob is missing, is written back as it was read.\<close>

lemma smudge_missing_same_version:
  assumes "is_hexdigest d" and "0 \<le> n" and "n < 10 ^ 20"
    and "encode rt d (Some n) = Inr p" and "utf8_decode stdin = Inr p"
    and "length (dummy_hash rt) = 40" and "objdir s d = None"
    and "Logger \<in> module_globals rt" and "GIT_FAT_VERBOSE rt = None"
  shows "cmd_filter_smudge rt stdin s = (None, s\<lparr>stdout := stdout s @ p\<rparr>)"
proof (cases "GIT_FAT_VERSION rt = Some (ustr ''1'')")
  case True
  then have p: "p = encode_v1 d (Some n)"
    using assms(4) by (simp add: encode_def)
  have t: "take (magiclen rt) p = p"
    using encode_v1_length [OF assms(1), of "Some n"] magiclen_v1_general [OF True assms(6)] p
    by simp
  have e: "encode rt d None = Inr p"
    using True p by (simp add: encode_def encode_v1_def)
  show ?thesis
    using assms(7,8,9)
    by (simp add: cmd_filter_smudge_def assms(5) decode_stream_def Let_def t
          decode_v1_text [OF assms(1), of "Some n", folded p] e logger_debug_def
          logging_debug_def)
next
  case False
  then have p: "p = cookie @ d @ [32] @ pad_left 20 (fmt_d n) @ [10]"
    using assms(4) by (simp add: encode_int)
  have "length p = 74"
    using fmt_d_width(1) [OF assms(2)] assms(1,3) by (simp add: p cookie_length is_hexdigest_def)
  then have t: "take (magiclen rt) p = p"
    using magiclen_v2_general [OF False assms(6)] by simp
  show ?thesis
    using assms(7,8,9)
    by (simp add: cmd_filter_smudge_def assms(5) decode_stream_def Let_def t
          decode_v2_text [OF assms(1,2), folded p] assms(4) logger_debug_def logging_debug_def)
qed

text \<open>Input without the prefix: written through, after the log line if logging is
  verbose, when \<open>itertools\<close> and \<open>logger\<close> are bound; \<open>NameError\<close> and nothing written
  when \<open>itertools\<close> is not bound.\<close>

lemma smudge_passthrough_bound:
  assumes "utf8_decode stdin = Inr x"
    and "\<not> prefix cookie (take (magiclen rt) x)" and "0 < BLOCK_SIZE rt"
    and "Itertools \<in> module_globals rt" and "Logger \<in> module_globals rt"
  shows "cmd_filter_smudge rt stdin s =
           (None,
            s\<lparr>stdout := logging_debug rt (ustr ''git-fat filter-smudge: not a managed file'')
                          (stdout s) @ x\<rparr>)"
  using assms(2-)
  by (simp add: cmd_filter_smudge_def assms(1) decode_stream_def decode_no_cookie Let_def
        cat_iter_def readblocks_concat logger_debug_def)

lemma smudge_passthrough_unbound:
  assumes "utf8_decode stdin = Inr x"
    and "\<not> prefix cookie (take (magiclen rt) x)"
    and "Itertools \<notin> module_globals rt"
  shows "cmd_filter_smudge rt stdin s = (Some NameError, s)"
  using assms(2-)
  by (simp add: cmd_filter_smudge_def assms(1) decode_stream_def decode_no_cookie Let_def)

lemma hello_octets: "utf8_decode ''hello world'' = Inr (ustr ''hello world'')"
  by (simp add: utf8_decode_ascii ascii_def ustr_def)

subsection \<open>C2: input that is no placeholder\<close>

text \<open>
  C2. Input whose first \<open>magiclen\<close> characters do not start with the prefix should be
  written unchanged to the output. As shipped, the handler that builds the pass-through
  iterator uses \<open>itertools\<close>, which \<open>git_utils.py\<close> never imports: smudge of
  \<open>hello world\<close> raises \<open>NameError\<close> and writes nothing. With the names bound and
  \<open>GIT_FAT_VERBOSE\<close> set, a log line precedes the input on the output; an input that is
  not UTF-8, such as the octet FF, raises \<open>UnicodeDecodeError\<close>.
\<close>

theorem smudge_passthrough_raises:
  "cmd_filter_smudge rt_shipped ''hello world'' empty_state = (Some NameError, empty_state) \<and>
   cmd_filter_smudge rt_verbose ''hello world'' empty_state
     = (None,
        \<lparr>objdir = Map.empty,
         stdout = ustr ''git-fat filter-smudge: not a managed file'' @ [10]
                  @ ustr ''hello world''\<rparr>) \<and>
   cmd_filter_smudge rt_v2 [CHR 0xFF] empty_state = (Some UnicodeDecodeError, empty_state)"
proof -
  have p: "\<not> prefix cookie (take (magiclen rt_shipped) (ustr ''hello world''))"
    by (simp add: magiclen_shipped cookie_def ustr_def)
  have i: "Itertools \<notin> module_globals rt_shipped" by (simp add: rt_shipped_fields)
  have a: "cmd_filter_smudge rt_shipped ''hello world'' empty_state
           = (Some NameError, empty_state)"
    by (rule smudge_passthrough_unbound [OF hello_octets p i])
  have m: "magiclen rt_verbose = 74"
    by (intro magiclen_v2_general)
       (simp_all add: rt_verbose_fields dummy_hash_def sha1_sample_length)
  have q: "\<not> prefix cookie (take (magiclen rt_verbose) (ustr ''hello world''))"
    by (simp add: m cookie_def ustr_def)
  have g: "0 < BLOCK_SIZE rt_verbose" "Itertools \<in> module_globals rt_verbose"
    "Logger \<in> module_globals rt_verbose"
    by (simp_all add: rt_verbose_fields)
  have b: "cmd_filter_smudge rt_verbose ''hello world'' empty_state
           = (None,
              \<lparr>objdir = Map.empty,
               stdout = ustr ''git-fat filter-smudge: not a managed file'' @ [10]
                        @ ustr ''hello world''\<rparr>)"
    by (simp add: smudge_passthrough_bound [OF hello_octets q g] logging_debug_def
          rt_verbose_fields empty_state_def)
  have c: "cmd_filter_smudge rt_v2 [CHR 0xFF] empty_state
           = (Some UnicodeDecodeError, empty_state)"
    by (simp add: cmd_filter_smudge_def utf8_decode_def)
  show ?thesis using a b c by simp
qed

subsection \<open>C3: a placeholder whose blob is missing\<close>

text \<open>
  C3. For a valid placeholder of either version whose blob is not in the store, smudge
  should write the placeholder back unchanged and end without error. The code writes
  \<open>encode(digest, bytes)\<close> instead of what it read: under the default version 2, a
  version 1 placeholder decodes to the size \<open>None\<close> and \<open>"%20d" % None\<close> raises
  \<open>TypeError\<close>; nothing is written.
\<close>

theorem smudge_v1_placeholder_raises:
  "cmd_filter_smudge rt_v2
     (''#$# git-fat 829c3804401b0727f70f73d4415e162400cbe57b'' @ [CHR 0x0A]) empty_state
   = (Some TypeError, empty_state)"
proof -
  have a: "GIT_FAT_VERSION rt_v2 \<noteq> Some (ustr ''1'')" by (simp add: rt_v2_fields)
  have b: "53 \<le> magiclen rt_v2" by (simp add: magiclen_v2)
  have c: "objdir empty_state digest_dummy = None" by (simp add: empty_state_def)
  have u: "utf8_decode (''#$# git-fat 829c3804401b0727f70f73d4415e162400cbe57b'' @ [CHR 0x0A])
           = Inr (encode_v1 digest_dummy None)"
    by (simp add: utf8_decode_ascii ascii_def encode_v1_def cookie_def digest_dummy_def ustr_def)
  show ?thesis
    using smudge_v1_missing [OF u digest_dummy_hex a b c]
    by (simp add: rt_v2_fields logging_debug_def)
qed

section \<open>Properties of the scanner and of garbage collection\<close>

lemma readline_line:
  assumes "CHR 0x0A \<notin> set hdr"
  shows "readline (hdr @ CHR 0x0A # rest) = (hdr @ [CHR 0x0A], rest)"
proof -
  have "takeWhile (\<lambda>c. c \<noteq> CHR 0x0A) (hdr @ CHR 0x0A # rest) = hdr"
    using assms by (subst takeWhile_append2) auto
  moreover have "dropWhile (\<lambda>c. c \<noteq> CHR 0x0A) (hdr @ CHR 0x0A # rest) = CHR 0x0A # rest"
    using assms by (subst dropWhile_append2) auto
  ultimately show ?thesis by (simp add: readline_def)
qed

lemma digit_small: "isdigit c \<Longrightarrow> c mod 256 = c \<and> c < 128"
  by (simp add: isdigit_def)

lemma digits_bytes: "map of_char (map char_of (dec_digits n) :: pybytes) = dec_digits n"
proof -
  have "\<forall>c \<in> set (dec_digits n). c mod 256 = c"
    using dec_digits_isdigit digit_small by blast
  then show ?thesis by (simp add: map_idI)
qed

lemma py_split_three:
  assumes "a \<noteq> []" "\<forall>c \<in> set a. \<not> isspace c" "b \<noteq> []" "\<forall>c \<in> set b. \<not> isspace c"
    "t \<noteq> []" "\<forall>c \<in> set t. \<not> isspace c"
  shows "py_split (a @ [32] @ b @ [32] @ t @ [10]) = [a, b, t]"
proof -
  have "split_acc [] (a @ [32] @ b @ [32] @ t @ [10]) = split_acc a ([32] @ b @ [32] @ t @ [10])"
    using split_acc_word [OF assms(2), of "[]"] by simp
  also have "\<dots> = a # split_acc [] (b @ [32] @ t @ [10])"
    using assms(1) by (simp add: isspace_def)
  also have "\<dots> = a # split_acc b ([32] @ t @ [10])"
    using split_acc_word [OF assms(4), of "[]"] by simp
  also have "\<dots> = a # b # split_acc [] (t @ [10])"
    using assms(3) by (simp add: isspace_def)
  also have "\<dots> = a # b # split_acc t [10]"
    using split_acc_word [OF assms(6), of "[]" "[10]"] by simp
  also have "\<dots> = [a, b, t]"
    using assms(5) by (simp add: isspace_def)
  finally show ?thesis by (simp add: py_split_def)
qed

lemma read_content_ascii:
  assumes "ascii c"
  shows "read_content (int (length c)) 0 [] (c @ rest) = Inr (map of_char c, rest)"
proof (cases "c = []")
  case True
  then show ?thesis by (subst read_content.simps) simp
next
  case False
  have "read_content (int (length c)) (int (length c)) (map of_char c) rest
        = Inr (map of_char c, rest)"
    by (subst read_content.simps) simp
  then show ?thesis
    using False utf8_decode_ascii [OF assms]
    by (subst read_content.simps) (simp add: Let_def)
qed

lemma scan_records_step:
  assumes "is_objhash h" and "ascii c"
  shows "scan_records R (batch_record h c @ rest) =
           (case decode (map of_char c) False of
              Inl e \<Rightarrow> if e = DecodeError then scan_records R rest else Inl e
            | Inr (fathash, b) \<Rightarrow>
                scan_records (case fathash of Some d \<Rightarrow> insert d R | None \<Rightarrow> R) rest)"
proof -
  define hdr where "hdr = h @ '' blob '' @ map char_of (dec_digits (length c))"
  have hx: "is_hexdigest (map of_char h)" using assms(1) by (simp add: is_objhash_def)
  have htok: "map of_char h \<noteq> ([]::pystr)" "\<forall>x \<in> set (map of_char h :: pystr). \<not> isspace x"
    using hexdigest_token [OF hx] by auto
  have hasc: "ascii h"
    using hx by (auto simp: ascii_def is_hexdigest_def list_all_iff)
  have dasc: "ascii (map char_of (dec_digits (length c)))"
    using dec_digits_isdigit [of _ "length c"] digit_small
    by (auto simp: ascii_def list_all_iff)
  have hdr_ascii: "ascii (hdr @ [CHR 0x0A])"
    using hasc dasc by (simp add: hdr_def ascii_def)
  have dnl: "CHR 0x0A \<notin> set (map char_of (dec_digits (length c)) :: pybytes)"
  proof
    assume "CHR 0x0A \<in> set (map char_of (dec_digits (length c)) :: pybytes)"
    then obtain x where x: "x \<in> set (dec_digits (length c))" "char_of x = CHR 0x0A" by auto
    then have "of_char (char_of x :: char) = (10::nat)" by simp
    moreover have "isdigit x" using x(1) by (rule dec_digits_isdigit)
    ultimately show False by (simp add: isdigit_def)
  qed
  have hnl: "CHR 0x0A \<notin> set h"
  proof
    assume "CHR 0x0A \<in> set h"
    then have "(10::nat) \<in> set (map of_char h)" by force
    then show False using htok(2) by (auto simp: isspace_def)
  qed
  have nl: "CHR 0x0A \<notin> set hdr"
    using hnl dnl by (simp add: hdr_def)
  have stream: "batch_record h c @ rest = hdr @ CHR 0x0A # (c @ CHR 0x0A # rest)"
    by (simp add: batch_record_def hdr_def)
  have line: "map of_char (hdr @ [CHR 0x0A])
              = map of_char h @ [32] @ ustr ''blob'' @ [32] @ dec_digits (length c) @ [10::nat]"
    by (simp add: hdr_def digits_bytes [unfolded map_map] ustr_def)
  have split: "py_split (map of_char (hdr @ [CHR 0x0A]))
               = [map of_char h, ustr ''blob'', dec_digits (length c)]"
    unfolding line
    using htok dec_digits_nonempty [of "length c"] dec_digits_isdigit [of _ "length c"]
      digit_not_space
    by (intro py_split_three) (auto simp: ustr_def isspace_def)
  show ?thesis
    unfolding stream
    by (subst scan_records.simps)
       (simp add: readline_line [OF nl] utf8_decode_ascii [OF hdr_ascii] split
          py_int_dec_digits read_content_ascii [OF assms(2)] del: map_append
          split: sum.split prod.split)
qed


lemma decode_errors: "decode x False = Inl e \<Longrightarrow> e = DecodeError \<or> e = IndexError \<or> e = ValueError"
  by (auto simp: decode_def split: if_splits list.splits option.splits)

lemma decode_strict_digest: "decode x False \<noteq> Inr (None, b)"
  by (auto simp: decode_def split: if_splits list.splits option.splits)

lemma scan_records_batch:
  assumes "list_all scannable records"
  shows "scan_records R (batch_output records) = Inr (R \<union> placeholder_digests records)"
  using assms
proof (induction records arbitrary: R)
  case Nil
  show ?case
    by (subst scan_records.simps) (simp add: readline_def placeholder_digests_def)
next
  case (Cons r records)
  obtain h c where r: "r = (h, c)" by (cases r)
  have sc: "scannable (h, c)" and rest: "list_all scannable records"
    using Cons.prems by (simp_all add: r)
  have g: "is_objhash h" "ascii c"
    and ne: "decode (map of_char c) False \<noteq> Inl IndexError"
            "decode (map of_char c) False \<noteq> Inl ValueError"
    using sc by (simp_all add: scannable_def)
  show ?case
  proof (cases "decode (map of_char c) False")
    case (Inl e)
    then have e: "e = DecodeError" using decode_errors [OF Inl] ne by auto
    have "placeholder_digests (r # records) = placeholder_digests records"
      using Inl by (auto simp: placeholder_digests_def r)
    then show ?thesis
      using Inl e Cons.IH [OF rest, of R]
      by (simp add: r scan_records_step [OF g])
  next
    case (Inr p)
    obtain fathash b where p: "p = (fathash, b)" by (cases p)
    obtain d where d: "fathash = Some d"
      using Inr p decode_strict_digest [of "map of_char c" b] by (cases fathash) auto
    have "placeholder_digests (r # records) = insert d (placeholder_digests records)"
      using Inr p d by (auto simp: placeholder_digests_def r)
    then show ?thesis
      using Inr p d Cons.IH [OF rest, of "insert d R"]
      by (simp add: r scan_records_step [OF g])
  qed
qed

lemma scan_skips_without_prefix:
  assumes "is_objhash h" and "ascii c" and "\<not> prefix cookie (map of_char c)"
  shows "scan_records R (batch_record h c @ rest) = scan_records R rest"
  using assms(3) by (simp add: scan_records_step [OF assms(1,2)] decode_no_cookie)

lemma objhash_a_ok: "is_objhash objhash_a"
  by (simp add: is_objhash_def objhash_a_def is_hexdigest_def)

lemma objhash_b_ok: "is_objhash objhash_b"
  by (simp add: is_objhash_def objhash_b_def is_hexdigest_def)

subsection \<open>C9: a candidate blob that does not decode\<close>

text \<open>
  C9. A candidate blob whose size is a magic length and whose content does not decode
  should be skipped and the scan go on, also when the content begins with the prefix and
  is malformed. The handler around \<open>decode\<close> catches \<open>DecodeError\<close> only: on a blob of 53
  octets made of the prefix and spaces the scan stops with \<open>IndexError\<close>, on one whose
  second token is \<open>xyz\<close> with \<open>ValueError\<close>, and the record after it is never read.
\<close>

theorem scan_stops_on_malformed_placeholder:
  "length blob_no_token = 53 \<and> length blob_bad_size = 53 \<and> 53 \<in> set (magiclens rt_v2) \<and>
   referenced_objects (batch_output [(objhash_a, blob_no_token), (objhash_b, blob_hello)])
     = Inl IndexError \<and>
   referenced_objects (batch_output [(objhash_a, blob_bad_size), (objhash_b, blob_hello)])
     = Inl ValueError"
proof -
  have l: "length blob_no_token = 53" "length blob_bad_size = 53"
    by (simp_all add: blob_no_token_def blob_bad_size_def)
  have m: "53 \<in> set (magiclens rt_v2)"
    by (simp add: magiclens_def calculate_all_magic_lens_def encode_v1_def cookie_length
          dummy_hash_def rt_v2_def sha1_sample_length)
  have a1: "ascii blob_no_token" and a2: "ascii blob_bad_size"
    by (simp_all add: ascii_def blob_no_token_def blob_bad_size_def list_all_iff)
  have d1: "decode (map of_char blob_no_token) False = Inl IndexError"
    by (simp add: blob_no_token_def decode_def cookie_def ustr_def py_split_def isspace_def
          replicate_numeral)
  have d2: "decode (map of_char blob_bad_size) False = Inl ValueError"
    by (simp add: blob_bad_size_def decode_def cookie_def ustr_def py_split_def isspace_def
          replicate_numeral py_int_def strip_def decimal_value_def decimal_zeros_def)
  show ?thesis
    using l m
    by (simp add: referenced_objects_def scan_records_step [OF objhash_a_ok a1]
          scan_records_step [OF objhash_a_ok a2] d1 d2)
qed

subsection \<open>C8: what garbage collection removes\<close>

lemma blob_hello_decode:
  "decode (map of_char blob_hello) False = Inr (Some digest_hello, Some 11)"
  by (simp add: blob_hello_def decode_def cookie_def ustr_def py_split_def isspace_def
        py_int_def strip_def decimal_value_def decimal_zeros_def digest_hello_def)

lemma scan_hello: "referenced_objects (batch_output [(objhash_a, blob_hello)]) = Inr {digest_hello}"
proof -
  have a: "ascii blob_hello" by (simp add: ascii_def blob_hello_def)
  have e: "scan_records {digest_hello} [] = Inr {digest_hello}"
    by (subst scan_records.simps) (simp add: readline_def)
  show ?thesis
    using scan_records_step [OF objhash_a_ok a, of "{}" "[]"]
    by (simp add: referenced_objects_def blob_hello_decode e)
qed

text \<open>With \<open>logger\<close> bound, and when the scan returns, \<open>cmd_gc\<close> leaves the store with
  exactly its referenced files; on a history all of whose candidate blobs are scannable
  the scan does return.\<close>

lemma cmd_gc_bound:
  assumes "referenced_objects p3_stdout = Inr referenced" and "Logger \<in> module_globals rt"
  shows "cmd_gc rt p3_stdout s = (None, (\<lambda>d. if d \<in> referenced then objdir s d else None))"
proof -
  have "objdir s |` (- (dom (objdir s) - referenced))
        = (\<lambda>d. if d \<in> referenced then objdir s d else None)"
    by (rule ext) (auto simp: restrict_map_def dom_def)
  then show ?thesis
    using assms by (simp add: cmd_gc_def Let_def catalog_objects_def)
qed

lemma cmd_gc_batch:
  assumes "list_all scannable records" and "Logger \<in> module_globals rt"
  shows "cmd_gc rt (batch_output records) s
           = (None, (\<lambda>d. if d \<in> placeholder_digests records then objdir s d else None))"
proof -
  have r: "referenced_objects (batch_output records) = Inr (placeholder_digests records)"
    using scan_records_batch [OF assms(1), of "{}"] by (simp add: referenced_objects_def)
  show ?thesis by (rule cmd_gc_bound [OF r assms(2)])
qed

text \<open>As shipped \<open>cmd_gc\<close> always raises and the store is left as it was.\<close>

lemma cmd_gc_unbound:
  assumes "Logger \<notin> module_globals rt"
  shows "fst (cmd_gc rt p3_stdout s) \<noteq> None \<and> snd (cmd_gc rt p3_stdout s) = objdir s"
  using assms by (simp add: cmd_gc_def Let_def split: sum.split)

text \<open>
  C8. \<open>cmd_gc\<close> should remove exactly the files of the store that the history of \<open>HEAD\<close>
  does not reference. In a store with the referenced blob of \<open>hello world\<close> and one
  unreferenced blob, the scan returns the one referenced digest; then \<open>logger.info\<close>, an
  unbound name as shipped, raises \<open>NameError\<close> before the loop that removes, and the
  unreferenced blob stays. With \<open>logger\<close> bound, a history with a malformed candidate blob
  stops the scan with \<open>IndexError\<close>, and again nothing is removed.
\<close>

theorem cmd_gc_raises_before_removal:
  "referenced_objects (batch_output [(objhash_a, blob_hello)]) = Inr {digest_hello} \<and>
   digest_dummy \<in> catalog_objects store_two \<and> digest_dummy \<notin> {digest_hello} \<and>
   cmd_gc rt_shipped (batch_output [(objhash_a, blob_hello)]) store_two
     = (Some NameError, objdir store_two) \<and>
   cmd_gc rt_v2 (batch_output [(objhash_a, blob_no_token), (objhash_b, blob_hello)]) store_two
     = (Some IndexError, objdir store_two)"
proof -
  have g: "digest_dummy \<in> catalog_objects store_two" "digest_dummy \<notin> {digest_hello}"
    by (simp_all add: catalog_objects_def store_two_def digest_dummy_def digest_hello_def
          ustr_def)
  have a: "cmd_gc rt_shipped (batch_output [(objhash_a, blob_hello)]) store_two
           = (Some NameError, objdir store_two)"
    unfolding cmd_gc_def Let_def scan_hello by (simp add: rt_shipped_fields)
  have a1: "ascii blob_no_token" by (simp add: ascii_def blob_no_token_def list_all_iff)
  have d1: "decode (map of_char blob_no_token) False = Inl IndexError"
    by (simp add: blob_no_token_def decode_def cookie_def ustr_def py_split_def isspace_def
          replicate_numeral)
  have "referenced_objects (batch_output [(objhash_a, blob_no_token), (objhash_b, blob_hello)])
        = Inl IndexError"
    by (simp add: referenced_objects_def scan_records_step [OF objhash_a_ok a1] d1)
  then have b: "cmd_gc rt_v2
                  (batch_output [(objhash_a, blob_no_token), (objhash_b, blob_hello)]) store_two
                = (Some IndexError, objdir store_two)"
    by (simp add: cmd_gc_def Let_def)
  show ?thesis using scan_hello g a b by simp
qed

end
